theory Spec2Isabelle
  imports Main "HOL-Library.Word"
begin

unbundle bit_operations_syntax

section \<open>Protocol constants (protocol.h)\<close>

text \<open>
  The C enumerators and macros of \<^verbatim>\<open>protocol.h\<close>, each at the type at which the code
  uses it: roles and packet types are stored in \<^verbatim>\<open>uint8_t\<close> fields, the timeout is
  compared with a \<^verbatim>\<open>uint64_t\<close>, and \<^verbatim>\<open>EDTSP_MAX_DEVICES\<close> is an \<^verbatim>\<open>int\<close> constant.
\<close>

definition EDTSP_MAGIC :: "16 word" where
  "EDTSP_MAGIC = 0xED61"

definition EDTSP_VERSION :: "8 word" where
  "EDTSP_VERSION = 1"

definition EDTSP_HEARTBEAT_TIMEOUT_MS :: "64 word" where
  "EDTSP_HEARTBEAT_TIMEOUT_MS = 5000"

definition EDTSP_MAX_DEVICES :: int where
  "EDTSP_MAX_DEVICES = 256"

definition EDTSP_TYPE_DISCOVERY :: "8 word" where
  "EDTSP_TYPE_DISCOVERY = 1"

definition EDTSP_TYPE_HEARTBEAT :: "8 word" where
  "EDTSP_TYPE_HEARTBEAT = 2"

definition EDTSP_TYPE_HANDSHAKE :: "8 word" where
  "EDTSP_TYPE_HANDSHAKE = 3"

definition EDTSP_TYPE_CONFIG :: "8 word" where
  "EDTSP_TYPE_CONFIG = 4"

definition EDTSP_TYPE_DATA :: "8 word" where
  "EDTSP_TYPE_DATA = 5"

definition EDTSP_ROLE_UNKNOWN :: "8 word" where
  "EDTSP_ROLE_UNKNOWN = 0"

definition EDTSP_ROLE_SLAVE :: "8 word" where
  "EDTSP_ROLE_SLAVE = 1"

definition EDTSP_ROLE_MASTER :: "8 word" where
  "EDTSP_ROLE_MASTER = 2"

section \<open>Device tracking (leader\_election.c)\<close>

record EDTSPDeviceInfo =
  device_id :: "32 word"
  last_heartbeat_ms :: "64 word"
  role :: "8 word"
  active :: bool

text \<open>
  Every \<^verbatim>\<open>printf\<close> of the module is an event appended to the output of the state, so
  that what the code reports is part of the model.
\<close>

datatype log_event =
    LogListFull
  | LogNewDevice "32 word"
  | LogTimeout "32 word" "64 word"
  | LogRoleChange "8 word" "8 word" "32 word" "32 word"
  | LogRxDiscovery "32 word" "8 word list" "8 word"
  | LogRxHeartbeat "32 word" "8 word" "32 word" "8 word"
  | LogRxUnhandled "8 word" "32 word"

text \<open>
  The file-scope variables of \<^verbatim>\<open>leader_election.c\<close>. \<^verbatim>\<open>device_list\<close> is the array
  of \<^verbatim>\<open>EDTSP_MAX_DEVICES\<close> slots; \<^verbatim>\<open>device_count\<close> is a \<^verbatim>\<open>uint8_t\<close>.
\<close>

record election_state =
  device_list :: "EDTSPDeviceInfo list"
  device_count :: "8 word"
  my_device_id :: "32 word"
  my_role :: "8 word"
  printed :: "log_event list"

definition zero_device :: EDTSPDeviceInfo where
  "zero_device = \<lparr>device_id = 0, last_heartbeat_ms = 0, role = 0, active = False\<rparr>"

definition edtsp_election_init :: "election_state \<Rightarrow> 32 word \<Rightarrow> election_state" where
  "edtsp_election_init st did =
     st\<lparr>my_device_id := did,
        device_count := 0,
        device_list := replicate (nat EDTSP_MAX_DEVICES) zero_device,
        my_role := EDTSP_ROLE_UNKNOWN\<rparr>"

text \<open>The slots a loop \<^verbatim>\<open>for (i = 0; i < device_count; i++)\<close> visits.\<close>

definition tracked :: "election_state \<Rightarrow> EDTSPDeviceInfo list" where
  "tracked st = take (unat (device_count st)) (device_list st)"

fun find_from :: "nat \<Rightarrow> EDTSPDeviceInfo list \<Rightarrow> 32 word \<Rightarrow> int" where
  "find_from i [] did = - 1"
| "find_from i (d # ds) did = (if device_id d = did then int i else find_from (Suc i) ds did)"

definition find_device_index :: "election_state \<Rightarrow> 32 word \<Rightarrow> int" where
  "find_device_index st did = find_from 0 (tracked st) did"

fun highest_loop :: "32 word \<Rightarrow> EDTSPDeviceInfo list \<Rightarrow> 32 word" where
  "highest_loop h [] = h"
| "highest_loop h (d # ds) =
     highest_loop (if active d \<and> device_id d > h then device_id d else h) ds"

definition edtsp_perform_election :: "election_state \<Rightarrow> election_state" where
  "edtsp_perform_election st =
     (let highest_id = highest_loop (my_device_id st) (tracked st);
          old_role = my_role st;
          new_role = (if highest_id = my_device_id st then EDTSP_ROLE_MASTER
                      else EDTSP_ROLE_SLAVE);
          st' = st\<lparr>my_role := new_role\<rparr>
      in if old_role \<noteq> new_role
         then st'\<lparr>printed := printed st' @
                   [LogRoleChange old_role new_role (my_device_id st) highest_id]\<rparr>
         else st')"

text \<open>
  \<^verbatim>\<open>edtsp_update_device\<close>. The capacity test compares the \<^verbatim>\<open>uint8_t\<close> counter,
  promoted to \<^verbatim>\<open>int\<close>, with \<^verbatim>\<open>EDTSP_MAX_DEVICES\<close>; \<^verbatim>\<open>device_count++\<close> is the
  wrapping increment of the \<^verbatim>\<open>uint8_t\<close>. The three final stores go to slot \<^verbatim>\<open>idx\<close>.
\<close>

definition store_observation ::
  "election_state \<Rightarrow> nat \<Rightarrow> 64 word \<Rightarrow> 8 word \<Rightarrow> election_state" where
  "store_observation st idx timestamp_ms r =
     st\<lparr>device_list := (device_list st)
          [idx := (device_list st ! idx)\<lparr>last_heartbeat_ms := timestamp_ms,
                                         role := r, active := True\<rparr>]\<rparr>"

definition edtsp_update_device ::
  "election_state \<Rightarrow> 32 word \<Rightarrow> 64 word \<Rightarrow> 8 word \<Rightarrow> election_state" where
  "edtsp_update_device st did timestamp_ms r =
     (let idx = find_device_index st did
      in if idx = - 1
         then if uint (device_count st) \<ge> EDTSP_MAX_DEVICES
              then st\<lparr>printed := printed st @ [LogListFull]\<rparr>
              else let idx' = unat (device_count st);
                       st' = st\<lparr>device_count := device_count st + 1,
                                device_list := (device_list st)
                                  [idx' := (device_list st ! idx')\<lparr>device_id := did\<rparr>],
                                printed := printed st @ [LogNewDevice did]\<rparr>
                   in store_observation st' idx' timestamp_ms r
         else store_observation st (nat idx) timestamp_ms r)"

text \<open>
  The loop of \<^verbatim>\<open>edtsp_check_timeouts\<close> over the tracked slots: the slots after the
  sweep, the flag \<^verbatim>\<open>topology_changed\<close>, and the lines printed. \<^verbatim>\<open>elapsed\<close> is the
  wrapping \<^verbatim>\<open>uint64_t\<close> difference.
\<close>

fun timeout_loop ::
  "64 word \<Rightarrow> EDTSPDeviceInfo list \<Rightarrow> EDTSPDeviceInfo list \<times> bool \<times> log_event list" where
  "timeout_loop current_time_ms [] = ([], False, [])"
| "timeout_loop current_time_ms (d # ds) =
     (case timeout_loop current_time_ms ds of (ds', changed, pr) \<Rightarrow>
        if \<not> active d then (d # ds', changed, pr)
        else let elapsed = current_time_ms - last_heartbeat_ms d
             in if elapsed > EDTSP_HEARTBEAT_TIMEOUT_MS
                then (d\<lparr>active := False\<rparr> # ds', True, LogTimeout (device_id d) elapsed # pr)
                else (d # ds', changed, pr))"

definition sweep_state :: "election_state \<Rightarrow> 64 word \<Rightarrow> election_state" where
  "sweep_state st current_time_ms =
     (case timeout_loop current_time_ms (tracked st) of (ds', changed, pr) \<Rightarrow>
        st\<lparr>device_list := ds' @ drop (unat (device_count st)) (device_list st),
           printed := printed st @ pr\<rparr>)"

definition topology_changed :: "election_state \<Rightarrow> 64 word \<Rightarrow> bool" where
  "topology_changed st current_time_ms =
     fst (snd (timeout_loop current_time_ms (tracked st)))"

definition edtsp_check_timeouts :: "election_state \<Rightarrow> 64 word \<Rightarrow> election_state" where
  "edtsp_check_timeouts st current_time_ms =
     (if topology_changed st current_time_ms
      then edtsp_perform_election (sweep_state st current_time_ms)
      else sweep_state st current_time_ms)"

definition edtsp_get_my_role :: "election_state \<Rightarrow> 8 word" where
  "edtsp_get_my_role st = my_role st"

fun count_loop :: "8 word \<Rightarrow> EDTSPDeviceInfo list \<Rightarrow> 8 word" where
  "count_loop c [] = c"
| "count_loop c (d # ds) = count_loop (if active d then c + 1 else c) ds"

definition edtsp_get_active_device_count :: "election_state \<Rightarrow> 8 word" where
  "edtsp_get_active_device_count st = count_loop 1 (tracked st)"

definition edtsp_is_master :: "election_state \<Rightarrow> bool" where
  "edtsp_is_master st = (my_role st = EDTSP_ROLE_MASTER)"

text \<open>The identifiers the election compares with its own: those of the active tracked slots.\<close>

definition active_ids :: "election_state \<Rightarrow> 32 word list" where
  "active_ids st = map device_id (filter active (tracked st))"

section \<open>Wire format (protocol.h, edtsp\_core.c)\<close>

text \<open>
  The packed structures of \<^verbatim>\<open>protocol.h\<close>, field by field. A fixed-size array is a
  list of bytes. Field names shared by several C structures carry the structure's prefix.
\<close>

record EDTSPHeader =
  magic :: "16 word"
  ptype :: "8 word"
  source_id :: "32 word"
  payload_len :: "8 word"

record EDTSPDiscoveryPacket =
  disc_header :: EDTSPHeader
  disc_interface_type :: "8 word"
  disc_version :: "8 word"
  device_name :: "8 word list"

record EDTSPHeartbeatPacket =
  hb_header :: EDTSPHeader
  hb_role :: "8 word"
  uptime_ms :: "32 word"
  active_devices :: "8 word"

record EDTSPHandshakePacket =
  hs_header :: EDTSPHeader
  handshake_step :: "8 word"
  hs_target_id :: "32 word"
  capabilities :: "16 word"
  hs_interface_type :: "8 word"

record EDTSPConfigPacket =
  cfg_header :: EDTSPHeader
  cfg_target_id :: "32 word"
  cfg_sensor_id :: "8 word"
  sampling_rate_ms :: "16 word"
  enable :: "8 word"

record EDTSPDataPacket =
  data_header :: EDTSPHeader
  data_sensor_id :: "8 word"
  timestamp_ms :: "32 word"
  data_len :: "8 word"
  data :: "8 word list"

text \<open>\<^verbatim>\<open>sizeof\<close> of the packed structures.\<close>

definition sizeof_EDTSPHeader :: nat where
  "sizeof_EDTSPHeader = 8"

definition sizeof_EDTSPDiscoveryPacket :: nat where
  "sizeof_EDTSPDiscoveryPacket = 42"

definition sizeof_EDTSPHeartbeatPacket :: nat where
  "sizeof_EDTSPHeartbeatPacket = 14"

definition sizeof_EDTSPHandshakePacket :: nat where
  "sizeof_EDTSPHandshakePacket = 16"

definition sizeof_EDTSPConfigPacket :: nat where
  "sizeof_EDTSPConfigPacket = 16"

definition sizeof_EDTSPDataPacket :: nat where
  "sizeof_EDTSPDataPacket = 78"

text \<open>
  Byte order. \<^verbatim>\<open>edtsp_swap16\<close> and \<^verbatim>\<open>edtsp_swap32\<close> are the functions of the
  embedded build; on a little-endian host \<^verbatim>\<open>htons\<close>, \<^verbatim>\<open>ntohs\<close>, \<^verbatim>\<open>htonl\<close> and
  \<^verbatim>\<open>ntohl\<close> of the PC build compute the same. The model is of such a host.
\<close>

definition edtsp_swap16 :: "16 word \<Rightarrow> 16 word" where
  "edtsp_swap16 x = drop_bit 8 x OR push_bit 8 x"

definition edtsp_swap32 :: "32 word \<Rightarrow> 32 word" where
  "edtsp_swap32 x =
     (drop_bit 24 x AND 0xFF) OR (drop_bit 8 x AND 0xFF00) OR
     (push_bit 8 x AND 0xFF0000) OR (push_bit 24 x AND 0xFF000000)"

definition EDTSP_HTONS :: "16 word \<Rightarrow> 16 word" where
  "EDTSP_HTONS x = edtsp_swap16 x"

definition EDTSP_HTONL :: "32 word \<Rightarrow> 32 word" where
  "EDTSP_HTONL x = edtsp_swap32 x"

definition EDTSP_NTOHS :: "16 word \<Rightarrow> 16 word" where
  "EDTSP_NTOHS x = edtsp_swap16 x"

definition EDTSP_NTOHL :: "32 word \<Rightarrow> 32 word" where
  "EDTSP_NTOHL x = edtsp_swap32 x"

text \<open>
  A pointer argument is an option: \<open>None\<close> is \<^verbatim>\<open>NULL\<close>, \<open>Some p\<close> points to an object
  whose content is \<open>p\<close>. A function that writes through the pointer returns the content
  after the call; the C functions themselves return \<^verbatim>\<open>void\<close>.
\<close>

definition init_header_fields :: "EDTSPHeader \<Rightarrow> 8 word \<Rightarrow> 32 word \<Rightarrow> 8 word \<Rightarrow> EDTSPHeader" where
  "init_header_fields h t sid plen =
     h\<lparr>magic := EDTSP_HTONS EDTSP_MAGIC, ptype := t,
       source_id := EDTSP_HTONL sid, payload_len := plen\<rparr>"

definition edtsp_init_header ::
  "EDTSPHeader option \<Rightarrow> 8 word \<Rightarrow> 32 word \<Rightarrow> 8 word \<Rightarrow> EDTSPHeader option" where
  "edtsp_init_header header t sid plen =
     (case header of None \<Rightarrow> None
      | Some h \<Rightarrow> Some (init_header_fields h t sid plen))"

definition zero_header :: EDTSPHeader where
  "zero_header = \<lparr>magic = 0, ptype = 0, source_id = 0, payload_len = 0\<rparr>"

text \<open>
  \<^verbatim>\<open>strncpy (dest, src, n)\<close>: the characters of \<open>src\<close> before its first NUL, at most
  \<open>n\<close> of them, then NULs up to \<open>n\<close> bytes; the bytes of \<open>dest\<close> from \<open>n\<close> on stay.
  \<^verbatim>\<open>memcpy (dest, src, n)\<close> replaces the first \<open>n\<close> bytes of \<open>dest\<close> by those of
  \<open>src\<close>, which must hold at least \<open>n\<close> bytes.
\<close>

definition strncpy :: "8 word list \<Rightarrow> 8 word list \<Rightarrow> nat \<Rightarrow> 8 word list" where
  "strncpy dest src n =
     (let s = take n (takeWhile (\<lambda>c. c \<noteq> 0) src)
      in s @ replicate (n - length s) 0 @ drop n dest)"

definition memcpy :: "8 word list \<Rightarrow> 8 word list \<Rightarrow> nat \<Rightarrow> 8 word list" where
  "memcpy dest src n = take n src @ drop n dest"

text \<open>What \<^verbatim>\<open>printf ("%s", a)\<close> reads of a character array: the bytes before the first NUL.\<close>

definition c_string :: "8 word list \<Rightarrow> 8 word list" where
  "c_string a = takeWhile (\<lambda>c. c \<noteq> 0) a"

definition edtsp_build_discovery ::
  "EDTSPDiscoveryPacket option \<Rightarrow> 32 word \<Rightarrow> 8 word \<Rightarrow> 8 word list option
     \<Rightarrow> EDTSPDiscoveryPacket option" where
  "edtsp_build_discovery pkt sid iface_type name =
     (case pkt of None \<Rightarrow> None
      | Some old \<Rightarrow>
          let p0 = \<lparr>disc_header = zero_header, disc_interface_type = 0, disc_version = 0,
                    device_name = replicate 32 0\<rparr>;
              p1 = p0\<lparr>disc_header := init_header_fields (disc_header p0) EDTSP_TYPE_DISCOVERY sid
                         (of_nat (sizeof_EDTSPDiscoveryPacket - sizeof_EDTSPHeader))\<rparr>;
              p2 = p1\<lparr>disc_interface_type := iface_type, disc_version := EDTSP_VERSION\<rparr>
          in case name of None \<Rightarrow> Some p2
             | Some nm \<Rightarrow>
                 Some (p2\<lparr>device_name := strncpy (device_name p2) nm (32 - 1)\<rparr>))"

definition edtsp_build_heartbeat ::
  "EDTSPHeartbeatPacket option \<Rightarrow> 32 word \<Rightarrow> 8 word \<Rightarrow> 32 word \<Rightarrow> 8 word
     \<Rightarrow> EDTSPHeartbeatPacket option" where
  "edtsp_build_heartbeat pkt sid r up n =
     (case pkt of None \<Rightarrow> None
      | Some old \<Rightarrow>
          let p0 = \<lparr>hb_header = zero_header, hb_role = 0, uptime_ms = 0, active_devices = 0\<rparr>;
              p1 = p0\<lparr>hb_header := init_header_fields (hb_header p0) EDTSP_TYPE_HEARTBEAT sid
                         (of_nat (sizeof_EDTSPHeartbeatPacket - sizeof_EDTSPHeader))\<rparr>
          in Some (p1\<lparr>hb_role := r, uptime_ms := EDTSP_HTONL up, active_devices := n\<rparr>))"

definition edtsp_build_handshake ::
  "EDTSPHandshakePacket option \<Rightarrow> 32 word \<Rightarrow> 8 word \<Rightarrow> 32 word \<Rightarrow> 16 word \<Rightarrow> 8 word
     \<Rightarrow> EDTSPHandshakePacket option" where
  "edtsp_build_handshake pkt sid step tid caps iface_type =
     (case pkt of None \<Rightarrow> None
      | Some old \<Rightarrow>
          let p0 = \<lparr>hs_header = zero_header, handshake_step = 0, hs_target_id = 0,
                    capabilities = 0, hs_interface_type = 0\<rparr>;
              p1 = p0\<lparr>hs_header := init_header_fields (hs_header p0) EDTSP_TYPE_HANDSHAKE sid
                         (of_nat (sizeof_EDTSPHandshakePacket - sizeof_EDTSPHeader))\<rparr>
          in Some (p1\<lparr>handshake_step := step, hs_target_id := EDTSP_HTONL tid,
                      capabilities := EDTSP_HTONS caps, hs_interface_type := iface_type\<rparr>))"

definition edtsp_build_config ::
  "EDTSPConfigPacket option \<Rightarrow> 32 word \<Rightarrow> 32 word \<Rightarrow> 8 word \<Rightarrow> 16 word \<Rightarrow> 8 word
     \<Rightarrow> EDTSPConfigPacket option" where
  "edtsp_build_config pkt sid tid sensor rate en =
     (case pkt of None \<Rightarrow> None
      | Some old \<Rightarrow>
          let p0 = \<lparr>cfg_header = zero_header, cfg_target_id = 0, cfg_sensor_id = 0,
                    sampling_rate_ms = 0, enable = 0\<rparr>;
              p1 = p0\<lparr>cfg_header := init_header_fields (cfg_header p0) EDTSP_TYPE_CONFIG sid
                         (of_nat (sizeof_EDTSPConfigPacket - sizeof_EDTSPHeader))\<rparr>
          in Some (p1\<lparr>cfg_target_id := EDTSP_HTONL tid, cfg_sensor_id := sensor,
                      sampling_rate_ms := EDTSP_HTONS rate, enable := en\<rparr>))"

definition edtsp_build_data ::
  "EDTSPDataPacket option \<Rightarrow> 32 word \<Rightarrow> 8 word \<Rightarrow> 32 word \<Rightarrow> 8 word list option \<Rightarrow> 8 word
     \<Rightarrow> EDTSPDataPacket option" where
  "edtsp_build_data pkt sid sensor ts d len =
     (case pkt of None \<Rightarrow> None
      | Some old \<Rightarrow>
          (case d of None \<Rightarrow> Some old
           | Some bytes \<Rightarrow>
               if len > 64 then Some old
               else
                 let p0 = \<lparr>data_header = zero_header, data_sensor_id = 0, timestamp_ms = 0,
                           data_len = 0, data = replicate 64 0\<rparr>;
                     p1 = p0\<lparr>data_header := init_header_fields (data_header p0) EDTSP_TYPE_DATA sid
                                (of_nat (sizeof_EDTSPDataPacket - sizeof_EDTSPHeader))\<rparr>
                 in Some (p1\<lparr>data_sensor_id := sensor, timestamp_ms := EDTSP_HTONL ts,
                             data_len := len, data := memcpy (data p1) bytes (unat len)\<rparr>)))"

definition edtsp_header_valid :: "EDTSPHeader option \<Rightarrow> bool" where
  "edtsp_header_valid header =
     (case header of None \<Rightarrow> False
      | Some h \<Rightarrow>
          if magic h \<noteq> EDTSP_MAGIC then False
          else if ptype h < EDTSP_TYPE_DISCOVERY \<or> ptype h > EDTSP_TYPE_DATA then False
          else True)"

text \<open>
  \<^verbatim>\<open>edtsp_parse_header\<close> converts in place and returns the verdict: the model returns
  the header after the call together with the \<^verbatim>\<open>bool\<close>.
\<close>

definition edtsp_parse_header :: "EDTSPHeader option \<Rightarrow> EDTSPHeader option \<times> bool" where
  "edtsp_parse_header header =
     (case header of None \<Rightarrow> (None, False)
      | Some h \<Rightarrow>
          let h' = h\<lparr>magic := EDTSP_NTOHS (magic h)\<rparr>;
              h'' = h'\<lparr>source_id := EDTSP_NTOHL (source_id h')\<rparr>
          in (Some h'', edtsp_header_valid (Some h'')))"

definition edtsp_parse_heartbeat :: "EDTSPHeartbeatPacket option \<Rightarrow> EDTSPHeartbeatPacket option" where
  "edtsp_parse_heartbeat pkt =
     (case pkt of None \<Rightarrow> None
      | Some p \<Rightarrow> Some (p\<lparr>uptime_ms := EDTSP_NTOHL (uptime_ms p)\<rparr>))"

definition edtsp_parse_handshake :: "EDTSPHandshakePacket option \<Rightarrow> EDTSPHandshakePacket option" where
  "edtsp_parse_handshake pkt =
     (case pkt of None \<Rightarrow> None
      | Some p \<Rightarrow>
          let p' = p\<lparr>hs_target_id := EDTSP_NTOHL (hs_target_id p)\<rparr>
          in Some (p'\<lparr>capabilities := EDTSP_NTOHS (capabilities p')\<rparr>))"

definition edtsp_parse_config :: "EDTSPConfigPacket option \<Rightarrow> EDTSPConfigPacket option" where
  "edtsp_parse_config pkt =
     (case pkt of None \<Rightarrow> None
      | Some p \<Rightarrow>
          let p' = p\<lparr>cfg_target_id := EDTSP_NTOHL (cfg_target_id p)\<rparr>
          in Some (p'\<lparr>sampling_rate_ms := EDTSP_NTOHS (sampling_rate_ms p')\<rparr>))"

definition edtsp_parse_data :: "EDTSPDataPacket option \<Rightarrow> EDTSPDataPacket option" where
  "edtsp_parse_data pkt =
     (case pkt of None \<Rightarrow> None
      | Some p \<Rightarrow> Some (p\<lparr>timestamp_ms := EDTSP_NTOHL (timestamp_ms p)\<rparr>))"

section \<open>Packet handling on the PC (edtsp\_pc.c)\<close>

text \<open>
  The handlers read the clock themselves (\<^verbatim>\<open>get_time_ms\<close>); the model takes the value
  read as the argument \<open>now\<close>. Both call \<^verbatim>\<open>edtsp_update_device\<close>, which returns nothing,
  and then \<^verbatim>\<open>edtsp_perform_election\<close>.
\<close>

definition handle_discovery :: "election_state \<Rightarrow> EDTSPDiscoveryPacket \<Rightarrow> 64 word \<Rightarrow> election_state" where
  "handle_discovery st pkt now =
     (let st1 = st\<lparr>printed := printed st @
                   [LogRxDiscovery (source_id (disc_header pkt)) (device_name pkt)
                      (disc_interface_type pkt)]\<rparr>;
          st2 = edtsp_update_device st1 (source_id (disc_header pkt)) now EDTSP_ROLE_UNKNOWN
      in edtsp_perform_election st2)"

definition handle_heartbeat :: "election_state \<Rightarrow> EDTSPHeartbeatPacket \<Rightarrow> 64 word \<Rightarrow> election_state" where
  "handle_heartbeat st pkt now =
     (case edtsp_parse_heartbeat (Some pkt) of None \<Rightarrow> st
      | Some p \<Rightarrow>
          let st1 = st\<lparr>printed := printed st @
                        [LogRxHeartbeat (source_id (hb_header p)) (hb_role p) (uptime_ms p)
                           (active_devices p)]\<rparr>;
              st2 = edtsp_update_device st1 (source_id (hb_header p)) now (hb_role p)
          in edtsp_perform_election st2)"

text \<open>
  \<^verbatim>\<open>receive_packets\<close> casts the receive buffer to the packed structures; on the
  little-endian host a multi-byte field is read least significant byte first. \<open>buffer\<close>
  is the 512-byte array after \<^verbatim>\<open>recvfrom\<close> and \<open>bytes\<close> its \<^verbatim>\<open>ssize_t\<close> result, which
  the comparisons with \<^verbatim>\<open>sizeof\<close> convert to the unsigned 64-bit \<^verbatim>\<open>size_t\<close>.
\<close>

definition host_u16 :: "8 word \<Rightarrow> 8 word \<Rightarrow> 16 word" where
  "host_u16 b0 b1 = ucast b0 OR push_bit 8 (ucast b1)"

definition host_u32 :: "8 word \<Rightarrow> 8 word \<Rightarrow> 8 word \<Rightarrow> 8 word \<Rightarrow> 32 word" where
  "host_u32 b0 b1 b2 b3 =
     ucast b0 OR push_bit 8 (ucast b1) OR push_bit 16 (ucast b2) OR push_bit 24 (ucast b3)"

definition header_at :: "8 word list \<Rightarrow> EDTSPHeader" where
  "header_at buffer =
     \<lparr>magic = host_u16 (buffer ! 0) (buffer ! 1), ptype = buffer ! 2,
      source_id = host_u32 (buffer ! 3) (buffer ! 4) (buffer ! 5) (buffer ! 6),
      payload_len = buffer ! 7\<rparr>"

definition discovery_at :: "8 word list \<Rightarrow> EDTSPHeader \<Rightarrow> EDTSPDiscoveryPacket" where
  "discovery_at buffer header_copy =
     \<lparr>disc_header = header_copy, disc_interface_type = buffer ! 8, disc_version = buffer ! 9,
      device_name = take 32 (drop 10 buffer)\<rparr>"

definition heartbeat_at :: "8 word list \<Rightarrow> EDTSPHeader \<Rightarrow> EDTSPHeartbeatPacket" where
  "heartbeat_at buffer header_copy =
     \<lparr>hb_header = header_copy, hb_role = buffer ! 8,
      uptime_ms = host_u32 (buffer ! 9) (buffer ! 10) (buffer ! 11) (buffer ! 12),
      active_devices = buffer ! 13\<rparr>"

definition as_size_t :: "int \<Rightarrow> nat" where
  "as_size_t n = nat (n mod 2 ^ 64)"

definition receive_packets ::
  "election_state \<Rightarrow> 32 word \<Rightarrow> 8 word list \<Rightarrow> int \<Rightarrow> 64 word \<Rightarrow> election_state" where
  "receive_packets st my_id buffer bytes now =
     (if as_size_t bytes < sizeof_EDTSPHeader then st
      else case edtsp_parse_header (Some (header_at buffer)) of
             (None, ok) \<Rightarrow> st
           | (Some header_copy, ok) \<Rightarrow>
               if \<not> ok then st
               else if source_id header_copy = my_id then st
               else if ptype header_copy = EDTSP_TYPE_DISCOVERY
               then (if as_size_t bytes \<ge> sizeof_EDTSPDiscoveryPacket
                     then handle_discovery st (discovery_at buffer header_copy) now
                     else st)
               else if ptype header_copy = EDTSP_TYPE_HEARTBEAT
               then (if as_size_t bytes \<ge> sizeof_EDTSPHeartbeatPacket
                     then handle_heartbeat st (heartbeat_at buffer header_copy) now
                     else st)
               else st\<lparr>printed := printed st @
                         [LogRxUnhandled (ptype header_copy) (source_id header_copy)]\<rparr>)"

section \<open>Derived notions and concrete scenarios\<close>

text \<open>The role \<^verbatim>\<open>edtsp_perform_election\<close> computes before it compares it with the old one.\<close>

definition elected_role :: "election_state \<Rightarrow> 8 word" where
  "elected_role st =
     (if highest_loop (my_device_id st) (tracked st) = my_device_id st
      then EDTSP_ROLE_MASTER else EDTSP_ROLE_SLAVE)"

definition is_role_change :: "log_event \<Rightarrow> bool" where
  "is_role_change e = (case e of LogRoleChange a b c d \<Rightarrow> True | _ \<Rightarrow> False)"

text \<open>The variables as C initialises them, before \<^verbatim>\<open>edtsp_election_init\<close>.\<close>

definition boot_state :: election_state where
  "boot_state =
     \<lparr>device_list = replicate 256 zero_device, device_count = 0, my_device_id = 0,
      my_role = EDTSP_ROLE_UNKNOWN, printed = []\<rparr>"

definition dev :: "32 word \<Rightarrow> 64 word \<Rightarrow> 8 word \<Rightarrow> bool \<Rightarrow> EDTSPDeviceInfo" where
  "dev i t r a = \<lparr>device_id = i, last_heartbeat_ms = t, role = r, active = a\<rparr>"

text \<open>
  The scenario of the specification: device 100 has seen 50 and 200 at time 0 and is
  Slave; and the same registry after both peers have timed out, with 100 Master.
\<close>

definition scenario_100 :: election_state where
  "scenario_100 =
     \<lparr>device_list = [dev 50 0 1 True, dev 200 0 2 True] @ replicate 254 zero_device,
      device_count = 2, my_device_id = 100, my_role = EDTSP_ROLE_SLAVE, printed = []\<rparr>"

definition timed_out_100 :: election_state where
  "timed_out_100 =
     \<lparr>device_list = [dev 50 0 1 False, dev 200 0 2 False] @ replicate 254 zero_device,
      device_count = 2, my_device_id = 100, my_role = EDTSP_ROLE_MASTER, printed = []\<rparr>"

text \<open>
  The array after \<open>n\<close> distinct peers \<open>2, 3, \<dots>\<close> have been stored in slots \<open>0, 1, \<dots>\<close>,
  all active.
\<close>

definition peer_id :: "nat \<Rightarrow> 32 word" where
  "peer_id i = of_nat (i + 2)"

definition peer :: "nat \<Rightarrow> EDTSPDeviceInfo" where
  "peer i = dev (peer_id i) 0 EDTSP_ROLE_SLAVE True"

definition registry_slots :: "nat \<Rightarrow> EDTSPDeviceInfo list" where
  "registry_slots n = map peer [0..<n] @ replicate (256 - n) zero_device"

definition crowded_255 :: election_state where
  "crowded_255 =
     \<lparr>device_list = registry_slots 255, device_count = 255, my_device_id = 1,
      my_role = EDTSP_ROLE_SLAVE, printed = []\<rparr>"

text \<open>
  Decoding as \<^verbatim>\<open>receive_packets\<close> does it for a heartbeat: \<^verbatim>\<open>edtsp_parse_header\<close> on the
  header, the converted header stored back, then the parser of the kind. There is no
  parser for Discovery, whose body has single bytes and a character array only. A packet
  whose header is rejected is not decoded.
\<close>

definition decode_discovery :: "EDTSPDiscoveryPacket option \<Rightarrow> EDTSPDiscoveryPacket option" where
  "decode_discovery pkt =
     (case pkt of None \<Rightarrow> None
      | Some p \<Rightarrow>
          (case edtsp_parse_header (Some (disc_header p)) of
             (Some h, True) \<Rightarrow> Some (p\<lparr>disc_header := h\<rparr>)
           | _ \<Rightarrow> None))"

definition decode_heartbeat :: "EDTSPHeartbeatPacket option \<Rightarrow> EDTSPHeartbeatPacket option" where
  "decode_heartbeat pkt =
     (case pkt of None \<Rightarrow> None
      | Some p \<Rightarrow>
          (case edtsp_parse_header (Some (hb_header p)) of
             (Some h, True) \<Rightarrow> edtsp_parse_heartbeat (Some (p\<lparr>hb_header := h\<rparr>))
           | _ \<Rightarrow> None))"

definition decode_handshake :: "EDTSPHandshakePacket option \<Rightarrow> EDTSPHandshakePacket option" where
  "decode_handshake pkt =
     (case pkt of None \<Rightarrow> None
      | Some p \<Rightarrow>
          (case edtsp_parse_header (Some (hs_header p)) of
             (Some h, True) \<Rightarrow> edtsp_parse_handshake (Some (p\<lparr>hs_header := h\<rparr>))
           | _ \<Rightarrow> None))"

definition decode_config :: "EDTSPConfigPacket option \<Rightarrow> EDTSPConfigPacket option" where
  "decode_config pkt =
     (case pkt of None \<Rightarrow> None
      | Some p \<Rightarrow>
          (case edtsp_parse_header (Some (cfg_header p)) of
             (Some h, True) \<Rightarrow> edtsp_parse_config (Some (p\<lparr>cfg_header := h\<rparr>))
           | _ \<Rightarrow> None))"

definition decode_data :: "EDTSPDataPacket option \<Rightarrow> EDTSPDataPacket option" where
  "decode_data pkt =
     (case pkt of None \<Rightarrow> None
      | Some p \<Rightarrow>
          (case edtsp_parse_header (Some (data_header p)) of
             (Some h, True) \<Rightarrow> edtsp_parse_data (Some (p\<lparr>data_header := h\<rparr>))
           | _ \<Rightarrow> None))"

text \<open>A header in host byte order, as \<^verbatim>\<open>edtsp_parse_header\<close> leaves it.\<close>

definition host_header :: "8 word \<Rightarrow> 32 word \<Rightarrow> 8 word \<Rightarrow> EDTSPHeader" where
  "host_header t sid plen = \<lparr>magic = EDTSP_MAGIC, ptype = t, source_id = sid, payload_len = plen\<rparr>"

text \<open>A Discovery buffer of zero bytes.\<close>

definition blank_discovery_packet :: EDTSPDiscoveryPacket where
  "blank_discovery_packet =
     \<lparr>disc_header = zero_header, disc_interface_type = 0, disc_version = 0,
      device_name = replicate 32 0\<rparr>"

text \<open>
  A Data packet as it stands in a caller's buffer, and the packet \<^verbatim>\<open>edtsp_build_data\<close>
  writes for given arguments (fields in network byte order).
\<close>

definition sample_data_packet :: EDTSPDataPacket where
  "sample_data_packet =
     \<lparr>data_header = \<lparr>magic = 0x61ED, ptype = 5, source_id = 0x07000000, payload_len = 70\<rparr>,
      data_sensor_id = 3, timestamp_ms = 0x09000000, data_len = 64, data = replicate 64 0xAB\<rparr>"


text \<open>
  Two executions from \<^verbatim>\<open>edtsp_election_init (1)\<close>: \<open>n\<close> calls of
  \<^verbatim>\<open>edtsp_update_device\<close> for the distinct peers \<open>2, 3, \<dots>\<close>, and \<open>n\<close> heartbeats of these
  peers delivered to \<^verbatim>\<open>handle_heartbeat\<close>. \<open>heartbeat_from\<close> is the packet as the handler
  receives it, its header already converted. \<open>role_after n\<close> is the role held after \<open>n\<close>
  such heartbeats.
\<close>

definition observe_run :: "nat \<Rightarrow> election_state" where
  "observe_run n =
     fold (\<lambda>i st. edtsp_update_device st (peer_id i) 0 EDTSP_ROLE_SLAVE) [0..<n]
       (edtsp_election_init boot_state 1)"

definition heartbeat_from :: "32 word \<Rightarrow> EDTSPHeartbeatPacket" where
  "heartbeat_from sid =
     \<lparr>hb_header = \<lparr>magic = EDTSP_MAGIC, ptype = EDTSP_TYPE_HEARTBEAT, source_id = sid,
                    payload_len = 6\<rparr>,
      hb_role = EDTSP_ROLE_SLAVE, uptime_ms = 0, active_devices = 1\<rparr>"

definition heartbeat_run :: "nat \<Rightarrow> election_state" where
  "heartbeat_run n =
     fold (\<lambda>i st. handle_heartbeat st (heartbeat_from (peer_id i)) 0) [0..<n]
       (edtsp_election_init boot_state 1)"

definition role_after :: "nat \<Rightarrow> 8 word" where
  "role_after n =
     (if n = 0 then EDTSP_ROLE_UNKNOWN else if n \<le> 255 then EDTSP_ROLE_SLAVE
      else EDTSP_ROLE_MASTER)"

section \<open>Properties of the election module\<close>

subsection \<open>Auxiliary facts about the loops\<close>

lemma count_loop_eq: "count_loop c ds = c + of_nat (length (filter active ds))"
  by (induction ds arbitrary: c) simp_all

lemma highest_loop_fold: "highest_loop h ds = fold max (map device_id (filter active ds)) h"
  by (induction ds arbitrary: h) (auto simp: max_def)

lemma highest_loop_Max:
  "highest_loop h ds = Max (insert h (set (map device_id (filter active ds))))"
proof -
  have "Max (set (h # map device_id (filter active ds))) =
        fold max (map device_id (filter active ds)) h"
    by (rule Max.set_eq_fold)
  then show ?thesis by (simp add: highest_loop_fold)
qed

lemma roles_distinct: "EDTSP_ROLE_MASTER \<noteq> EDTSP_ROLE_SLAVE"
  by (simp add: EDTSP_ROLE_MASTER_def EDTSP_ROLE_SLAVE_def)

lemma my_role_election:
  "my_role (edtsp_perform_election st) =
     (if highest_loop (my_device_id st) (tracked st) = my_device_id st
      then EDTSP_ROLE_MASTER else EDTSP_ROLE_SLAVE)"
  by (simp add: edtsp_perform_election_def Let_def)

lemma self_is_Max_iff:
  "finite A \<Longrightarrow> (s = Max (insert s A)) = (\<forall>x\<in>A. x \<le> (s::32 word))"
  by (metis Max_ge Max_insert2 finite_insert insert_iff)

lemma tracked_election [simp]: "tracked (edtsp_perform_election st) = tracked st"
  by (simp add: edtsp_perform_election_def tracked_def Let_def)

lemma find_from_found:
  "did \<in> device_id ` set ds \<Longrightarrow>
     \<exists>j<length ds. find_from k ds did = int (k + j) \<and> device_id (ds ! j) = did"
proof (induction ds arbitrary: k)
  case Nil
  then show ?case by simp
next
  case (Cons d ds)
  show ?case
  proof (cases "device_id d = did")
    case True
    then show ?thesis by auto
  next
    case False
    with Cons.prems have "did \<in> device_id ` set ds" by auto
    from Cons.IH [OF this, of "Suc k"] obtain j where
      "j < length ds" "find_from (Suc k) ds did = int (Suc k + j)" "device_id (ds ! j) = did"
      by blast
    with False have "Suc j < length (d # ds) \<and> find_from k (d # ds) did = int (k + Suc j)
       \<and> device_id ((d # ds) ! Suc j) = did" by simp
    then show ?thesis by blast
  qed
qed

lemma find_from_none: "did \<notin> device_id ` set ds \<Longrightarrow> find_from k ds did = - 1"
  by (induction ds arbitrary: k) auto

lemma observed_record:
  "device_id d = did \<Longrightarrow>
   d\<lparr>last_heartbeat_ms := now, role := r, active := True\<rparr> =
   \<lparr>device_id = did, last_heartbeat_ms = now, role = r, active = True\<rparr>"
  by (cases d) simp

lemma never_full: "\<not> uint (device_count st) \<ge> EDTSP_MAX_DEVICES"
proof -
  have "uint (device_count st) < 2 ^ 8"
    using uint_bounded [of "device_count st"] by simp
  then show ?thesis by (simp add: EDTSP_MAX_DEVICES_def)
qed

lemma timeout_loop_length: "length (fst (timeout_loop t ds)) = length ds"
  by (induction ds) (auto split: prod.splits simp: Let_def)

lemma timeout_loop_again:
  "timeout_loop t (fst (timeout_loop t ds)) = (fst (timeout_loop t ds), False, [])"
  by (induction ds) (auto split: prod.splits simp: Let_def)

lemma tracked_sweep: "tracked (sweep_state st t) = fst (timeout_loop t (tracked st))"
proof -
  have "length (fst (timeout_loop t (tracked st))) =
        min (unat (device_count st)) (length (device_list st))"
    by (simp add: timeout_loop_length tracked_def min.commute)
  then show ?thesis
    by (auto simp: sweep_state_def tracked_def split: prod.splits)
qed

lemma sweep_fixed:
  assumes "timeout_loop t (tracked s) = (tracked s, False, [])"
  shows "sweep_state s t = s"
proof -
  have "sweep_state s t =
        s\<lparr>device_list := tracked s @ drop (unat (device_count s)) (device_list s)\<rparr>"
    by (simp add: sweep_state_def assms)
  also have "tracked s @ drop (unat (device_count s)) (device_list s) = device_list s"
    by (simp add: tracked_def)
  finally show ?thesis by simp
qed

subsection \<open>Election\<close>

text \<open>
  The election over the slots its loop visits, the first \<^verbatim>\<open>device_count\<close> ones: it sets
  the role to Master exactly when the own identifier is the maximum of itself and the
  active identifiers among these slots, and to Slave otherwise. The order is that of
  \<^verbatim>\<open>uint32_t\<close>: being the maximum is the same as every such identifier being at most the
  own one as unsigned numbers. With no active slot among them the role is Master.
\<close>

theorem election_on_tracked_slots:
  "(my_role (edtsp_perform_election st) = EDTSP_ROLE_MASTER \<longleftrightarrow>
      my_device_id st = Max (insert (my_device_id st) (set (active_ids st))))
   \<and> (my_role (edtsp_perform_election st) = EDTSP_ROLE_SLAVE \<longleftrightarrow>
      my_device_id st \<noteq> Max (insert (my_device_id st) (set (active_ids st))))
   \<and> (my_device_id st = Max (insert (my_device_id st) (set (active_ids st))) \<longleftrightarrow>
      (\<forall>x \<in> set (active_ids st). unat x \<le> unat (my_device_id st)))
   \<and> (active_ids st = [] \<longrightarrow> my_role (edtsp_perform_election st) = EDTSP_ROLE_MASTER)"
proof -
  let ?M = "Max (insert (my_device_id st) (set (active_ids st)))"
  have h: "highest_loop (my_device_id st) (tracked st) = ?M"
    by (simp add: highest_loop_Max active_ids_def)
  have r: "my_role (edtsp_perform_election st) =
     (if my_device_id st = ?M then EDTSP_ROLE_MASTER else EDTSP_ROLE_SLAVE)"
    unfolding my_role_election h by (simp add: eq_commute)
  have u: "(my_device_id st = ?M) =
     (\<forall>x \<in> set (active_ids st). unat x \<le> unat (my_device_id st))"
    by (simp add: self_is_Max_iff word_le_nat_alt)
  have e: "active_ids st = [] \<longrightarrow> my_device_id st = ?M" by simp
  show ?thesis using r u e roles_distinct by (simp only: ) auto
qed

theorem election_on_tracked_slots_witness:
  "active_ids (edtsp_election_init boot_state 100) = []
   \<and> my_role (edtsp_perform_election (edtsp_election_init boot_state 100)) = EDTSP_ROLE_MASTER
   \<and> \<not> (\<forall>x \<in> set (active_ids scenario_100). unat x \<le> unat (my_device_id scenario_100))
   \<and> my_role (edtsp_perform_election scenario_100) = EDTSP_ROLE_SLAVE"
proof -
  have a: "active_ids (edtsp_election_init boot_state 100) = []"
    by (simp add: active_ids_def tracked_def edtsp_election_init_def)
  have b: "\<not> (\<forall>x \<in> set (active_ids scenario_100). unat x \<le> unat (my_device_id scenario_100))"
    by (simp add: active_ids_def tracked_def scenario_100_def dev_def)
  from a b election_on_tracked_slots [of "edtsp_election_init boot_state 100"]
    election_on_tracked_slots [of scenario_100]
  show ?thesis by blast
qed

text \<open>
  C6. \<^verbatim>\<open>edtsp_perform_election\<close> stores the role it computes. When that role differs
  from the one held before, it prints exactly one role-change line, naming the old and the
  new role; when it is the same, nothing is printed and the whole state is unchanged.
  Running the election again on the result reports nothing further.
\<close>

theorem role_transition_reported_once:
  "my_role (edtsp_perform_election st) = elected_role st
   \<and> (elected_role st \<noteq> my_role st \<longrightarrow>
        printed (edtsp_perform_election st) =
          printed st @ [LogRoleChange (my_role st) (elected_role st) (my_device_id st)
                          (highest_loop (my_device_id st) (tracked st))])
   \<and> (elected_role st = my_role st \<longrightarrow> edtsp_perform_election st = st)
   \<and> length (filter is_role_change (printed (edtsp_perform_election st))) =
       length (filter is_role_change (printed st)) +
       (if elected_role st \<noteq> my_role st then 1 else 0)
   \<and> edtsp_perform_election (edtsp_perform_election st) = edtsp_perform_election st"
  by (simp add: edtsp_perform_election_def elected_role_def Let_def tracked_def
      is_role_change_def)

theorem role_transition_reported_once_witness:
  "elected_role timed_out_100 = my_role timed_out_100
   \<and> edtsp_perform_election timed_out_100 = timed_out_100
   \<and> elected_role scenario_100 = my_role scenario_100
   \<and> elected_role (edtsp_election_init boot_state 100) \<noteq>
       my_role (edtsp_election_init boot_state 100)
   \<and> printed (edtsp_perform_election (edtsp_election_init boot_state 100)) =
       [LogRoleChange EDTSP_ROLE_UNKNOWN EDTSP_ROLE_MASTER 100 100]"
proof -
  let ?s = "edtsp_election_init boot_state 100"
  have a: "elected_role timed_out_100 = my_role timed_out_100"
    by (simp add: elected_role_def tracked_def timed_out_100_def dev_def)
  have a': "elected_role scenario_100 = my_role scenario_100"
    by (simp add: elected_role_def tracked_def scenario_100_def dev_def)
  have b: "elected_role ?s = EDTSP_ROLE_MASTER" "my_role ?s = EDTSP_ROLE_UNKNOWN"
    "printed ?s = []" "my_device_id ?s = 100" "highest_loop 100 (tracked ?s) = 100"
    by (simp_all add: elected_role_def tracked_def edtsp_election_init_def boot_state_def)
  have c: "elected_role ?s \<noteq> my_role ?s"
    by (simp add: b EDTSP_ROLE_MASTER_def EDTSP_ROLE_UNKNOWN_def)
  from role_transition_reported_once [of ?s] c
  have "printed (edtsp_perform_election ?s) =
          printed ?s @ [LogRoleChange (my_role ?s) (elected_role ?s) (my_device_id ?s)
                          (highest_loop (my_device_id ?s) (tracked ?s))]"
    by blast
  then have d: "printed (edtsp_perform_election ?s) =
       [LogRoleChange EDTSP_ROLE_UNKNOWN EDTSP_ROLE_MASTER 100 100]"
    by (simp add: b)
  from role_transition_reported_once [of timed_out_100] a
  have "edtsp_perform_election timed_out_100 = timed_out_100" by blast
  with a a' c d show ?thesis by blast
qed

subsection \<open>Timeout sweep\<close>

text \<open>
  C7. After one \<^verbatim>\<open>edtsp_check_timeouts\<close> at time \<open>t\<close>, a further call at the same \<open>t\<close>
  finds no record to flip (\<^verbatim>\<open>topology_changed\<close> stays false, so the election is not
  called) and returns the state as it was: the active flags, the timestamps and the
  output are the same.
\<close>

theorem sweep_idempotent:
  "\<not> topology_changed (edtsp_check_timeouts st t) t
   \<and> edtsp_check_timeouts (edtsp_check_timeouts st t) t = edtsp_check_timeouts st t
   \<and> map active (device_list (edtsp_check_timeouts (edtsp_check_timeouts st t) t)) =
       map active (device_list (edtsp_check_timeouts st t))
   \<and> map last_heartbeat_ms (device_list (edtsp_check_timeouts (edtsp_check_timeouts st t) t)) =
       map last_heartbeat_ms (device_list (edtsp_check_timeouts st t))
   \<and> printed (edtsp_check_timeouts (edtsp_check_timeouts st t) t) =
       printed (edtsp_check_timeouts st t)"
proof -
  let ?c = "edtsp_check_timeouts st t"
  have tr: "tracked ?c = tracked (sweep_state st t)"
    by (simp add: edtsp_check_timeouts_def)
  have nc: "\<not> topology_changed ?c t"
    by (simp add: topology_changed_def tr tracked_sweep timeout_loop_again)
  have sw: "sweep_state ?c t = ?c"
    by (rule sweep_fixed) (simp add: tr tracked_sweep timeout_loop_again)
  have "edtsp_check_timeouts ?c t = ?c"
    using nc sw by (simp add: edtsp_check_timeouts_def [of ?c])
  with nc show ?thesis by simp
qed

subsection \<open>Observations\<close>

text \<open>
  An observation of an identifier that one of the first \<^verbatim>\<open>device_count\<close> slots carries:
  \<^verbatim>\<open>edtsp_update_device\<close> rewrites that slot (the first such) to the identifier with the new
  timestamp, the announced role and \<open>active = True\<close>, whatever its active flag was; the
  counter and every other slot stay, so no record is created. The identifier is then among
  the active identifiers the election compares, and if it exceeds the own identifier the
  election makes this device Slave.
\<close>

theorem observe_tracked_reactivates:
  assumes "did \<in> device_id ` set (tracked st)"
  shows "nat (find_device_index st did) < length (tracked st)
    \<and> device_id (device_list st ! nat (find_device_index st did)) = did
    \<and> edtsp_update_device st did now r =
        st\<lparr>device_list := (device_list st)[nat (find_device_index st did) :=
             \<lparr>device_id = did, last_heartbeat_ms = now, role = r, active = True\<rparr>]\<rparr>
    \<and> device_count (edtsp_update_device st did now r) = device_count st
    \<and> length (device_list (edtsp_update_device st did now r)) = length (device_list st)
    \<and> did \<in> set (active_ids (edtsp_update_device st did now r))
    \<and> (my_device_id st < did \<longrightarrow>
         my_role (edtsp_perform_election (edtsp_update_device st did now r)) = EDTSP_ROLE_SLAVE)"
proof -
  let ?i = "nat (find_device_index st did)"
  let ?rec = "\<lparr>device_id = did, last_heartbeat_ms = now, role = r, active = True\<rparr>"
  let ?st' = "edtsp_update_device st did now r"
  from find_from_found [OF assms, of 0] obtain j where
    j: "j < length (tracked st)" "find_device_index st did = int j"
       "device_id (tracked st ! j) = did"
    by (auto simp: find_device_index_def)
  have i: "?i = j" using j by simp
  have lt: "?i < length (tracked st)" using i j by simp
  have nth: "tracked st ! ?i = device_list st ! ?i"
    using lt by (simp add: tracked_def)
  have idd: "device_id (device_list st ! ?i) = did"
    using j i nth by simp
  have ne: "find_device_index st did \<noteq> - 1" using j by simp
  have upd: "?st' = st\<lparr>device_list := (device_list st)[?i := ?rec]\<rparr>"
    using ne by (simp add: edtsp_update_device_def Let_def store_observation_def
        observed_record [OF idd])
  have tr: "tracked ?st' = (tracked st)[?i := ?rec]"
    by (simp add: upd tracked_def take_update_swap)
  have "?rec \<in> set (tracked ?st')"
    unfolding tr using lt by (simp add: set_update_memI)
  then have mem: "did \<in> set (active_ids ?st')"
    by (force simp: active_ids_def)
  have slave: "my_role (edtsp_perform_election ?st') = EDTSP_ROLE_SLAVE" if "my_device_id st < did"
  proof -
    have "did \<le> highest_loop (my_device_id ?st') (tracked ?st')"
      unfolding highest_loop_Max using mem by (simp add: active_ids_def)
    moreover have "my_device_id ?st' = my_device_id st" by (simp add: upd)
    ultimately have "highest_loop (my_device_id ?st') (tracked ?st') \<noteq> my_device_id ?st'"
      using that by auto
    then show ?thesis by (simp add: my_role_election)
  qed
  show ?thesis using lt idd upd mem slave by simp
qed

theorem observe_tracked_reactivates_witness:
  "200 \<in> device_id ` set (tracked timed_out_100)
   \<and> \<not> active (device_list timed_out_100 ! 1)
   \<and> my_device_id timed_out_100 < 200
   \<and> nat (find_device_index timed_out_100 200) = 1
   \<and> device_list (edtsp_update_device timed_out_100 200 7000 2) ! 1 = dev 200 7000 2 True
   \<and> 200 \<in> set (active_ids (edtsp_update_device timed_out_100 200 7000 2))
   \<and> my_role (edtsp_perform_election (edtsp_update_device timed_out_100 200 7000 2)) =
       EDTSP_ROLE_SLAVE"
proof -
  have h: "200 \<in> device_id ` set (tracked timed_out_100)"
    by (simp add: tracked_def timed_out_100_def dev_def)
  have a: "\<not> active (device_list timed_out_100 ! 1)" "my_device_id timed_out_100 < 200"
    "nat (find_device_index timed_out_100 200) = 1"
    by (simp_all add: timed_out_100_def dev_def find_device_index_def tracked_def)
  have l: "1 < length (device_list timed_out_100)"
    by (simp add: timed_out_100_def)
  note t = observe_tracked_reactivates [OF h, of 7000 2]
  have u: "edtsp_update_device timed_out_100 200 7000 2 =
        timed_out_100\<lparr>device_list := (device_list timed_out_100)[1 :=
             \<lparr>device_id = 200, last_heartbeat_ms = 7000, role = 2, active = True\<rparr>]\<rparr>"
    using t unfolding a(3) by blast
  have m: "200 \<in> set (active_ids (edtsp_update_device timed_out_100 200 7000 2))"
    using t by blast
  have s: "my_device_id timed_out_100 < 200 \<longrightarrow>
         my_role (edtsp_perform_election (edtsp_update_device timed_out_100 200 7000 2)) =
           EDTSP_ROLE_SLAVE"
    using t by blast
  have n: "device_list (edtsp_update_device timed_out_100 200 7000 2) ! 1 = dev 200 7000 2 True"
    unfolding u using l by (simp add: dev_def)
  from h a m s n show ?thesis by blast
qed

subsection \<open>Active-device count\<close>

text \<open>
  \<^verbatim>\<open>edtsp_get_active_device_count\<close> returns one (for this device, which has no slot) plus
  the number of active slots among the first \<^verbatim>\<open>device_count\<close> ones, as a \<^verbatim>\<open>uint8_t\<close>: the
  sum modulo 256. With exactly 255 such slots active it returns 0.
\<close>

theorem active_device_count_tracked:
  "edtsp_get_active_device_count st = 1 + of_nat (length (filter active (tracked st)))
   \<and> unat (edtsp_get_active_device_count st) =
       (1 + length (filter active (tracked st))) mod 256
   \<and> (length (filter active (tracked st)) = 255 \<longrightarrow> edtsp_get_active_device_count st = 0)"
proof -
  have 1: "edtsp_get_active_device_count st = 1 + of_nat (length (filter active (tracked st)))"
    by (simp add: edtsp_get_active_device_count_def count_loop_eq)
  have 2: "unat (edtsp_get_active_device_count st) =
      (1 + length (filter active (tracked st))) mod 256"
    unfolding 1 by (simp add: unat_word_ariths unat_of_nat mod_simps)
  have 3: "length (filter active (tracked st)) = 255 \<longrightarrow> edtsp_get_active_device_count st = 0"
    unfolding 1 by simp
  show ?thesis using 1 2 3 by blast
qed

theorem active_device_count_tracked_witness:
  "length (filter active (tracked crowded_255)) = 255
   \<and> edtsp_get_active_device_count crowded_255 = 0"
proof -
  have "tracked crowded_255 = map peer [0..<255]"
    by (simp add: tracked_def crowded_255_def registry_slots_def)
  then have h: "length (filter active (tracked crowded_255)) = 255"
    by (simp add: filter_map comp_def peer_def dev_def)
  with active_device_count_tracked [of crowded_255] show ?thesis by blast
qed

section \<open>Properties of the wire codec\<close>

subsection \<open>Byte order\<close>

lemma bit_swap16:
  "bit (edtsp_swap16 x) n \<longleftrightarrow> (if n < 8 then bit x (n + 8) else n < 16 \<and> bit x (n - 8))"
  by (auto simp: edtsp_swap16_def bit_simps add.commute dest: bit_imp_le_length)

lemma swap16_swap16: "edtsp_swap16 (edtsp_swap16 x) = x"
  by (rule bit_word_eqI) (auto simp: bit_swap16)

lemma masks32:
  "(0xFF :: 32 word) = mask 8"
  "(0xFF00 :: 32 word) = push_bit 8 (mask 8)"
  "(0xFF0000 :: 32 word) = push_bit 16 (mask 8)"
  "(0xFF000000 :: 32 word) = push_bit 24 (mask 8)"
  by (simp_all add: mask_eq_exp_minus_1 push_bit_eq_mult)

lemma bit_swap32_parts:
  fixes x :: "32 word"
  shows "bit (drop_bit 24 x AND mask 8) n \<longleftrightarrow> n < 8 \<and> bit x (n + 24)"
    and "bit (drop_bit 8 x AND push_bit 8 (mask 8)) n \<longleftrightarrow> 8 \<le> n \<and> n < 16 \<and> bit x (n + 8)"
    and "bit (push_bit 8 x AND push_bit 16 (mask 8)) n \<longleftrightarrow> 16 \<le> n \<and> n < 24 \<and> bit x (n - 8)"
    and "bit (push_bit 24 x AND push_bit 24 (mask 8)) n \<longleftrightarrow> 24 \<le> n \<and> n < 32 \<and> bit x (n - 24)"
  by (auto simp: bit_simps add.commute dest: bit_imp_le_length)

lemma bit_swap32:
  "bit (edtsp_swap32 x) n \<longleftrightarrow>
     (if n < 8 then bit x (n + 24) else if n < 16 then bit x (n + 8)
      else if n < 24 then bit x (n - 8) else n < 32 \<and> bit x (n - 24))"
  unfolding edtsp_swap32_def masks32 bit_or_iff bit_swap32_parts by auto

lemma swap32_swap32: "edtsp_swap32 (edtsp_swap32 x) = x"
  by (rule bit_word_eqI) (auto simp: bit_swap32)

lemma swap16_magic: "edtsp_swap16 EDTSP_MAGIC = 0x61ED"
  by (simp add: edtsp_swap16_def EDTSP_MAGIC_def)

lemma swap16_example: "edtsp_swap16 0x1234 = 0x3412"
  by (simp add: edtsp_swap16_def)

lemma swap32_example: "edtsp_swap32 0x12345678 = 0x78563412"
  by (simp add: edtsp_swap32_def)

subsection \<open>Header validation and round trips\<close>

lemma header_valid_iff:
  "edtsp_header_valid (Some h) \<longleftrightarrow> magic h = EDTSP_MAGIC \<and> 1 \<le> ptype h \<and> ptype h \<le> 5"
  by (auto simp: edtsp_header_valid_def EDTSP_TYPE_DISCOVERY_def EDTSP_TYPE_DATA_def
      simp del: word_less_1)

lemma parse_header_Some:
  "edtsp_parse_header (Some h) =
     (Some (h\<lparr>magic := edtsp_swap16 (magic h), source_id := edtsp_swap32 (source_id h)\<rparr>),
      edtsp_swap16 (magic h) = EDTSP_MAGIC \<and> 1 \<le> ptype h \<and> ptype h \<le> 5)"
  by (simp add: edtsp_parse_header_def Let_def header_valid_iff EDTSP_NTOHS_def EDTSP_NTOHL_def)

lemma parse_init_header:
  "edtsp_parse_header (Some (init_header_fields h t sid plen)) =
     (Some (host_header t sid plen), 1 \<le> t \<and> t \<le> 5)"
  by (cases h)
     (simp add: parse_header_Some init_header_fields_def host_header_def
      EDTSP_HTONS_def EDTSP_HTONL_def swap16_swap16 swap32_swap32)

lemma roundtrip_header:
  "1 \<le> t \<Longrightarrow> t \<le> 5 \<Longrightarrow>
   edtsp_parse_header (edtsp_init_header (Some h) t sid plen) =
     (Some (host_header t sid plen), True)"
  by (simp add: edtsp_init_header_def parse_init_header)

lemma roundtrip_heartbeat:
  "decode_heartbeat (edtsp_build_heartbeat (Some old) sid r up n) =
     Some \<lparr>hb_header = host_header EDTSP_TYPE_HEARTBEAT sid 6, hb_role = r, uptime_ms = up,
           active_devices = n\<rparr>"
  by (simp add: decode_heartbeat_def edtsp_build_heartbeat_def Let_def parse_init_header
      EDTSP_TYPE_HEARTBEAT_def edtsp_parse_heartbeat_def EDTSP_HTONL_def EDTSP_NTOHL_def
      swap32_swap32 sizeof_EDTSPHeartbeatPacket_def sizeof_EDTSPHeader_def)

lemma roundtrip_handshake:
  "decode_handshake (edtsp_build_handshake (Some old) sid step tid caps iface) =
     Some \<lparr>hs_header = host_header EDTSP_TYPE_HANDSHAKE sid 8, handshake_step = step,
           hs_target_id = tid, capabilities = caps, hs_interface_type = iface\<rparr>"
  by (simp add: decode_handshake_def edtsp_build_handshake_def Let_def parse_init_header
      EDTSP_TYPE_HANDSHAKE_def edtsp_parse_handshake_def EDTSP_HTONL_def EDTSP_NTOHL_def
      EDTSP_HTONS_def EDTSP_NTOHS_def swap16_swap16
      swap32_swap32 sizeof_EDTSPHandshakePacket_def sizeof_EDTSPHeader_def)

lemma roundtrip_config:
  "decode_config (edtsp_build_config (Some old) sid tid sensor rate en) =
     Some \<lparr>cfg_header = host_header EDTSP_TYPE_CONFIG sid 8, cfg_target_id = tid,
           cfg_sensor_id = sensor, sampling_rate_ms = rate, enable = en\<rparr>"
  by (simp add: decode_config_def edtsp_build_config_def Let_def parse_init_header
      EDTSP_TYPE_CONFIG_def edtsp_parse_config_def EDTSP_HTONL_def EDTSP_NTOHL_def
      EDTSP_HTONS_def EDTSP_NTOHS_def swap16_swap16
      swap32_swap32 sizeof_EDTSPConfigPacket_def sizeof_EDTSPHeader_def)

lemma roundtrip_data:
  assumes "len \<le> 64" "length bytes = unat len"
  shows "decode_data (edtsp_build_data (Some old) sid sensor ts (Some bytes) len) =
     Some \<lparr>data_header = host_header EDTSP_TYPE_DATA sid 70, data_sensor_id = sensor,
           timestamp_ms = ts, data_len = len, data = bytes @ replicate (64 - unat len) 0\<rparr>"
proof -
  have "\<not> 64 < len" using assms(1) by simp
  then show ?thesis using assms(2)
    by (simp add: decode_data_def edtsp_build_data_def Let_def parse_init_header
      EDTSP_TYPE_DATA_def edtsp_parse_data_def EDTSP_HTONL_def EDTSP_NTOHL_def
      swap32_swap32 sizeof_EDTSPDataPacket_def sizeof_EDTSPHeader_def memcpy_def)
qed

lemma takeWhile_no_nul: "0 \<notin> set nm \<Longrightarrow> takeWhile (\<lambda>c. c \<noteq> (0::8 word)) nm = nm"
  by (induction nm) auto

lemma strncpy_short:
  assumes "0 \<notin> set nm" "length nm \<le> 31"
  shows "strncpy (replicate 32 0) nm 31 = nm @ replicate (32 - length nm) 0"
proof -
  have pad: "replicate (31 - length nm) (0::8 word) @ [0] = replicate (32 - length nm) 0"
    using assms(2) by (simp add: replicate_append_same Suc_diff_le flip: replicate_Suc)
  show ?thesis
    using assms(2) by (simp add: strncpy_def Let_def takeWhile_no_nul [OF assms(1)] pad)
qed

lemma c_string_padded:
  assumes "0 \<notin> set nm" "length nm < 32"
  shows "c_string (nm @ replicate (32 - length nm) 0) = nm"
proof -
  obtain k where k: "32 - length nm = Suc k"
    using assms(2) by (cases "32 - length nm") auto
  have "takeWhile (\<lambda>c. c \<noteq> 0) (nm @ replicate (Suc k) 0) =
        nm @ takeWhile (\<lambda>c. c \<noteq> 0) (replicate (Suc k) (0::8 word))"
    using assms(1) by (intro takeWhile_append2) auto
  then show ?thesis by (simp add: c_string_def k)
qed

lemma roundtrip_discovery:
  assumes "0 \<notin> set nm" "length nm \<le> 31"
  shows "decode_discovery (edtsp_build_discovery (Some old) sid iface (Some nm)) =
     Some \<lparr>disc_header = host_header EDTSP_TYPE_DISCOVERY sid 34, disc_interface_type = iface,
           disc_version = EDTSP_VERSION, device_name = nm @ replicate (32 - length nm) 0\<rparr>"
  using strncpy_short [OF assms]
  by (simp add: decode_discovery_def edtsp_build_discovery_def Let_def parse_init_header
      EDTSP_TYPE_DISCOVERY_def sizeof_EDTSPDiscoveryPacket_def sizeof_EDTSPHeader_def)

text \<open>
  C4. For every packet kind, decoding what the builder wrote gives back the values passed
  to the builder, in host byte order: the header of any kind 1..5 with any source
  identifier and any payload length (255 included); Discovery with any name of at most 31
  characters, which comes back NUL-padded and reads as the same string; Heartbeat,
  Handshake and Config with any field values; Data with any length up to 64 and that many
  bytes (0 and 64 included).
\<close>

theorem decode_encode_roundtrip:
  "(1 \<le> t \<and> t \<le> 5 \<longrightarrow>
      edtsp_parse_header (edtsp_init_header (Some h) t sid plen) =
        (Some (host_header t sid plen), True))
   \<and> (0 \<notin> set nm \<and> length nm \<le> 31 \<longrightarrow>
        decode_discovery (edtsp_build_discovery (Some old1) sid iface (Some nm)) =
          Some \<lparr>disc_header = host_header EDTSP_TYPE_DISCOVERY sid 34,
                disc_interface_type = iface, disc_version = EDTSP_VERSION,
                device_name = nm @ replicate (32 - length nm) 0\<rparr>
        \<and> c_string (nm @ replicate (32 - length nm) 0) = nm)
   \<and> decode_heartbeat (edtsp_build_heartbeat (Some old2) sid r up n) =
        Some \<lparr>hb_header = host_header EDTSP_TYPE_HEARTBEAT sid 6, hb_role = r, uptime_ms = up,
              active_devices = n\<rparr>
   \<and> decode_handshake (edtsp_build_handshake (Some old3) sid step tid caps iface) =
        Some \<lparr>hs_header = host_header EDTSP_TYPE_HANDSHAKE sid 8, handshake_step = step,
              hs_target_id = tid, capabilities = caps, hs_interface_type = iface\<rparr>
   \<and> decode_config (edtsp_build_config (Some old4) sid tid sensor rate en) =
        Some \<lparr>cfg_header = host_header EDTSP_TYPE_CONFIG sid 8, cfg_target_id = tid,
              cfg_sensor_id = sensor, sampling_rate_ms = rate, enable = en\<rparr>
   \<and> (len \<le> 64 \<and> length bytes = unat len \<longrightarrow>
        decode_data (edtsp_build_data (Some old5) sid sensor ts (Some bytes) len) =
          Some \<lparr>data_header = host_header EDTSP_TYPE_DATA sid 70, data_sensor_id = sensor,
                timestamp_ms = ts, data_len = len, data = bytes @ replicate (64 - unat len) 0\<rparr>
        \<and> take (unat len) (bytes @ replicate (64 - unat len) 0) = bytes)"
  using roundtrip_header [of t h sid plen]
    roundtrip_discovery [of nm old1 sid iface] c_string_padded [of nm]
    roundtrip_heartbeat [of old2 sid r up n]
    roundtrip_handshake [of old3 sid step tid caps iface]
    roundtrip_config [of old4 sid tid sensor rate en]
    roundtrip_data [of len bytes old5 sid sensor ts]
  by simp

theorem decode_encode_roundtrip_witness:
  "edtsp_parse_header (edtsp_init_header (Some zero_header) 2 0xDEADBEEF 255) =
        (Some (host_header 2 0xDEADBEEF 255), True)
   \<and> length (replicate 31 (0x41 :: 8 word)) = 31
   \<and> decode_discovery (edtsp_build_discovery (Some blank_discovery_packet) 7 1 (Some (replicate 31 0x41))) =
          Some \<lparr>disc_header = host_header EDTSP_TYPE_DISCOVERY 7 34,
                disc_interface_type = 1, disc_version = EDTSP_VERSION,
                device_name = replicate 31 0x41 @ [0]\<rparr>
   \<and> c_string (replicate 31 0x41 @ [0]) = replicate 31 0x41
   \<and> decode_data (edtsp_build_data (Some sample_data_packet) 7 3 9 (Some (replicate 64 0xCD)) 64) =
          Some \<lparr>data_header = host_header EDTSP_TYPE_DATA 7 70, data_sensor_id = 3,
                timestamp_ms = 9, data_len = 64, data = replicate 64 0xCD\<rparr>
   \<and> decode_data (edtsp_build_data (Some sample_data_packet) 7 3 9 (Some []) 0) =
          Some \<lparr>data_header = host_header EDTSP_TYPE_DATA 7 70, data_sensor_id = 3,
                timestamp_ms = 9, data_len = 0, data = replicate 64 0\<rparr>"
proof -
  have a: "1 \<le> (2 :: 8 word) \<and> (2 :: 8 word) \<le> 5" by simp
  have b: "0 \<notin> set (replicate 31 (0x41 :: 8 word)) \<and> length (replicate 31 (0x41 :: 8 word)) \<le> 31"
    by simp
  have c: "(64 :: 8 word) \<le> 64 \<and> length (replicate 64 (0xCD :: 8 word)) = unat (64 :: 8 word)"
    by simp
  have d: "(0 :: 8 word) \<le> 64 \<and> length ([] :: 8 word list) = unat (0 :: 8 word)"
    by simp
  note t1 = decode_encode_roundtrip [where t = 2 and h = zero_header and sid = "0xDEADBEEF"
      and plen = 255 and nm = "[]" and len = 0 and bytes = "[]"]
  note t2 = decode_encode_roundtrip [where t = 2 and nm = "replicate 31 0x41" and sid = 7
      and iface = 1 and ?old1.0 = blank_discovery_packet and len = 64 and bytes = "replicate 64 0xCD"
      and sensor = 3 and ts = 9 and ?old5.0 = sample_data_packet]
  note t3 = decode_encode_roundtrip [where t = 2 and nm = "[]" and sid = 7
      and len = 0 and bytes = "[]" and sensor = 3 and ts = 9 and ?old5.0 = sample_data_packet]
  have 1: "edtsp_parse_header (edtsp_init_header (Some zero_header) 2 0xDEADBEEF 255) =
        (Some (host_header 2 0xDEADBEEF 255), True)"
    using t1 a by blast
  have 2: "decode_discovery (edtsp_build_discovery (Some blank_discovery_packet) 7 1 (Some (replicate 31 0x41))) =
          Some \<lparr>disc_header = host_header EDTSP_TYPE_DISCOVERY 7 34,
                disc_interface_type = 1, disc_version = EDTSP_VERSION,
                device_name = replicate 31 0x41 @ replicate (32 - length (replicate 31 (0x41 :: 8 word))) 0\<rparr>
      \<and> c_string (replicate 31 0x41 @ replicate (32 - length (replicate 31 (0x41 :: 8 word))) 0) =
          replicate 31 (0x41 :: 8 word)"
    using t2 b by blast
  have 3: "decode_data (edtsp_build_data (Some sample_data_packet) 7 3 9 (Some (replicate 64 0xCD)) 64) =
          Some \<lparr>data_header = host_header EDTSP_TYPE_DATA 7 70, data_sensor_id = 3,
                timestamp_ms = 9, data_len = 64,
                data = replicate 64 0xCD @ replicate (64 - unat (64 :: 8 word)) 0\<rparr>"
    using t2 c by blast
  have 4: "decode_data (edtsp_build_data (Some sample_data_packet) 7 3 9 (Some []) 0) =
          Some \<lparr>data_header = host_header EDTSP_TYPE_DATA 7 70, data_sensor_id = 3,
                timestamp_ms = 9, data_len = 0, data = [] @ replicate (64 - unat (0 :: 8 word)) 0\<rparr>"
    using t3 d by blast
  have e: "replicate (32 - length (replicate 31 (0x41 :: 8 word))) (0 :: 8 word) = [0]"
    "replicate (64 - unat (64 :: 8 word)) (0 :: 8 word) = []"
    "[] @ replicate (64 - unat (0 :: 8 word)) (0 :: 8 word) = replicate 64 0"
    by simp_all
  from 1 2 3 4 show ?thesis unfolding e by simp
qed

text \<open>
  C5. \<^verbatim>\<open>edtsp_parse_header\<close> accepts a header exactly when its magic, byte-swapped, is
  \<open>0xED61\<close> and its kind byte is one of 1..5, and rejects it otherwise. When the header of
  a received buffer is rejected, \<^verbatim>\<open>receive_packets\<close> returns with the state as it was: no
  handler runs and nothing after the header is read.
\<close>

theorem parse_header_rejects_exactly:
  "(snd (edtsp_parse_header (Some h)) \<longleftrightarrow>
      edtsp_swap16 (magic h) = 0xED61 \<and> 1 \<le> ptype h \<and> ptype h \<le> 5)
   \<and> (snd (edtsp_parse_header (Some h)) \<longleftrightarrow>
      edtsp_swap16 (magic h) = 0xED61 \<and> unat (ptype h) \<in> {1, 2, 3, 4, 5})
   \<and> (\<not> snd (edtsp_parse_header (Some (header_at buffer))) \<longrightarrow>
        receive_packets st my_id buffer bytes now = st)"
proof -
  have 1: "snd (edtsp_parse_header (Some h)) \<longleftrightarrow>
      edtsp_swap16 (magic h) = 0xED61 \<and> 1 \<le> ptype h \<and> ptype h \<le> 5"
    by (simp add: parse_header_Some EDTSP_MAGIC_def)
  have "(1 \<le> ptype h \<and> ptype h \<le> 5) = (unat (ptype h) \<in> {1, 2, 3, 4, 5})"
  proof -
    have "(1 \<le> ptype h \<and> ptype h \<le> 5) = (1 \<le> unat (ptype h) \<and> unat (ptype h) \<le> 5)"
      by (simp add: word_le_nat_alt)
    also have "\<dots> = (unat (ptype h) \<in> {1, 2, 3, 4, 5})"
      by (simp only: insert_iff empty_iff) arith
    finally show ?thesis .
  qed
  with 1 have 2: "snd (edtsp_parse_header (Some h)) \<longleftrightarrow>
      edtsp_swap16 (magic h) = 0xED61 \<and> unat (ptype h) \<in> {1, 2, 3, 4, 5}"
    by simp
  have 3: "\<not> snd (edtsp_parse_header (Some (header_at buffer))) \<longrightarrow>
        receive_packets st my_id buffer bytes now = st"
    by (simp add: receive_packets_def parse_header_Some)
  from 1 2 3 show ?thesis by blast
qed

theorem parse_header_rejects_exactly_witness:
  "\<not> snd (edtsp_parse_header (Some (header_at (replicate 512 0))))
   \<and> receive_packets boot_state 1 (replicate 512 0) 14 0 = boot_state
   \<and> snd (edtsp_parse_header (Some \<lparr>magic = 0x61ED, ptype = 2, source_id = 0, payload_len = 6\<rparr>))
   \<and> \<not> snd (edtsp_parse_header (Some \<lparr>magic = 0x61ED, ptype = 6, source_id = 0, payload_len = 6\<rparr>))
   \<and> \<not> snd (edtsp_parse_header (Some \<lparr>magic = 0xED61, ptype = 2, source_id = 0, payload_len = 6\<rparr>))"
proof -
  have m: "edtsp_swap16 0x61ED = 0xED61" "edtsp_swap16 0xED61 \<noteq> 0xED61" "edtsp_swap16 0 \<noteq> 0xED61"
    by (simp_all add: edtsp_swap16_def)
  have h0: "magic (header_at (replicate 512 0)) = 0"
    by (simp add: header_at_def host_u16_def)
  note a = parse_header_rejects_exactly [where h = "header_at (replicate 512 0)"
      and buffer = "replicate 512 0" and st = boot_state and my_id = 1 and bytes = 14 and now = 0]
  have 1: "\<not> snd (edtsp_parse_header (Some (header_at (replicate 512 0))))"
    using a m(3) unfolding h0 by blast
  with a have 2: "receive_packets boot_state 1 (replicate 512 0) 14 0 = boot_state"
    by blast
  have 3: "snd (edtsp_parse_header (Some \<lparr>magic = 0x61ED, ptype = 2, source_id = 0, payload_len = 6\<rparr>))"
    using parse_header_rejects_exactly [where h = "\<lparr>magic = 0x61ED, ptype = 2, source_id = 0, payload_len = 6\<rparr>"] m
    by simp
  have 4: "\<not> snd (edtsp_parse_header (Some \<lparr>magic = 0x61ED, ptype = 6, source_id = 0, payload_len = 6\<rparr>))"
    using parse_header_rejects_exactly [where h = "\<lparr>magic = 0x61ED, ptype = 6, source_id = 0, payload_len = 6\<rparr>"] m
    by simp
  have 5: "\<not> snd (edtsp_parse_header (Some \<lparr>magic = 0xED61, ptype = 2, source_id = 0, payload_len = 6\<rparr>))"
    using parse_header_rejects_exactly [where h = "\<lparr>magic = 0xED61, ptype = 2, source_id = 0, payload_len = 6\<rparr>"] m
    by simp
  from 1 2 3 4 5 show ?thesis by blast
qed

subsection \<open>Data builder\<close>




section \<open>The registry at capacity\<close>

text \<open>
  \<^verbatim>\<open>EDTSP_MAX_DEVICES\<close> is 256 and \<^verbatim>\<open>device_count\<close> is a \<^verbatim>\<open>uint8_t\<close>: storing the
  256th record wraps the counter from 255 to 0, and every loop over the first
  \<^verbatim>\<open>device_count\<close> slots then visits none of the 256 records the array holds.
\<close>

lemma registry_slots_Suc:
  assumes "n \<le> 255"
  shows "(registry_slots n)[n := peer n] = registry_slots (Suc n)"
proof -
  have r: "replicate (256 - n) zero_device = zero_device # replicate (256 - Suc n) zero_device"
    using assms by (simp add: Suc_diff_le flip: replicate_Suc)
  show ?thesis
    unfolding registry_slots_def r by (simp add: list_update_append)
qed

lemma registry_slots_nth:
  assumes "n \<le> 255"
  shows "registry_slots n ! n = zero_device"
  using assms by (simp add: registry_slots_def nth_append)

lemma registry_slots_take: "take n (registry_slots n) = map peer [0..<n]"
  by (simp add: registry_slots_def)

lemma length_registry_slots: "n \<le> 256 \<Longrightarrow> length (registry_slots n) = 256"
  by (simp add: registry_slots_def)

lemma unat_count: "n \<le> 255 \<Longrightarrow> unat (of_nat n :: 8 word) = n"
  by (simp add: unat_of_nat)

lemma unat_peer_id: "i \<le> 255 \<Longrightarrow> unat (peer_id i) = i + 2"
  unfolding peer_id_def by (simp only: unat_of_nat) simp

lemma peer_id_fresh:
  assumes "n \<le> 255"
  shows "peer_id n \<notin> device_id ` set (map peer [0..<n])"
proof
  assume "peer_id n \<in> device_id ` set (map peer [0..<n])"
  then obtain i where i: "i < n" "peer_id n = peer_id i"
    by (auto simp: peer_def dev_def)
  from i(2) have "unat (peer_id n) = unat (peer_id i)"
    by simp
  then show False using assms i(1) by (simp add: unat_peer_id)
qed

lemma update_fresh_step:
  assumes "device_list s = registry_slots n" "device_count s = of_nat n" "n \<le> 255"
  shows "edtsp_update_device s (peer_id n) 0 EDTSP_ROLE_SLAVE =
         s\<lparr>device_count := of_nat n + 1, device_list := registry_slots (Suc n),
           printed := printed s @ [LogNewDevice (peer_id n)]\<rparr>"
proof -
  have tr: "tracked s = map peer [0..<n]"
    using assms by (simp add: tracked_def unat_count registry_slots_take)
  have nf: "find_device_index s (peer_id n) = - 1"
    unfolding find_device_index_def tr by (rule find_from_none) (rule peer_id_fresh [OF assms(3)])
  have len: "n < length (registry_slots n)"
    using assms(3) by (simp add: length_registry_slots)
  have rec: "zero_device\<lparr>device_id := peer_id n, last_heartbeat_ms := 0,
                role := EDTSP_ROLE_SLAVE, active := True\<rparr> = peer n"
    by (simp add: zero_device_def dev_def peer_def)
  show ?thesis
    using never_full [of s] len
    by (simp add: edtsp_update_device_def nf Let_def store_observation_def assms(1,2)
        unat_count [OF assms(3)] registry_slots_nth [OF assms(3)] rec
        registry_slots_Suc [OF assms(3)])
qed

lemma observe_run_Suc:
  "observe_run (Suc n) = edtsp_update_device (observe_run n) (peer_id n) 0 EDTSP_ROLE_SLAVE"
  by (simp add: observe_run_def)

lemma observe_run_fields:
  "n \<le> 256 \<Longrightarrow> device_list (observe_run n) = registry_slots n
      \<and> device_count (observe_run n) = of_nat n
      \<and> my_device_id (observe_run n) = 1"
proof (induction n)
  case 0
  then show ?case
    by (simp add: observe_run_def edtsp_election_init_def boot_state_def registry_slots_def
        EDTSP_MAX_DEVICES_def)
next
  case (Suc n)
  then have n: "n \<le> 255" and ih: "device_list (observe_run n) = registry_slots n"
    "device_count (observe_run n) = of_nat n" "my_device_id (observe_run n) = 1"
    by simp_all
  show ?case
    unfolding observe_run_Suc update_fresh_step [OF ih(1,2) n] by (simp add: ih)
qed

lemma overwritten_record:
  "d\<lparr>device_id := i, last_heartbeat_ms := t, role := r, active := True\<rparr> = dev i t r True"
  by (cases d) (simp add: dev_def)

lemma registry_slots_0: "0 < n \<Longrightarrow> n \<le> 256 \<Longrightarrow> registry_slots n ! 0 = peer 0"
  by (simp add: registry_slots_def nth_append)

lemma update_wrapped:
  assumes "device_count s = 0" "device_list s = registry_slots 256"
  shows "edtsp_update_device s did t r =
         s\<lparr>device_count := 1, device_list := (registry_slots 256)[0 := dev did t r True],
           printed := printed s @ [LogNewDevice did]\<rparr>"
proof -
  have nf: "find_device_index s did = - 1"
    by (simp add: find_device_index_def tracked_def assms(1))
  have z: "registry_slots 256 ! 0 = peer 0"
    by (rule registry_slots_0) simp_all
  show ?thesis
    using never_full [of s]
    by (simp add: edtsp_update_device_def nf Let_def store_observation_def assms
        length_registry_slots overwritten_record)
qed

lemma tracked_after_wrap:
  assumes "device_count s = 1" "device_list s = (registry_slots 256)[0 := d]"
  shows "tracked s = [d]"
proof -
  have "registry_slots 256 = peer 0 # tl (registry_slots 256)"
    by (simp add: registry_slots_def upt_conv_Cons)
  then obtain rest where "registry_slots 256 = peer 0 # rest" ..
  then show ?thesis by (simp add: tracked_def assms)
qed

lemma peer_ids_small:
  assumes "n \<le> 256" "257 < unat did"
  shows "did \<notin> device_id ` set (registry_slots n)"
proof
  assume "did \<in> device_id ` set (registry_slots n)"
  then have "did = 0 \<or> (\<exists>i<n. did = peer_id i)"
    by (auto simp: registry_slots_def peer_def dev_def zero_device_def)
  then show False
  proof
    assume "did = 0"
    with assms(2) show False by simp
  next
    assume "\<exists>i<n. did = peer_id i"
    then obtain i where "i < n" "did = peer_id i" by blast
    with assms show False by (simp add: unat_peer_id)
  qed
qed

lemma handle_heartbeat_election:
  "handle_heartbeat st pkt now =
     edtsp_perform_election
       (edtsp_update_device
          (st\<lparr>printed := printed st @
               [LogRxHeartbeat (source_id (hb_header pkt)) (hb_role pkt)
                  (edtsp_swap32 (uptime_ms pkt)) (active_devices pkt)]\<rparr>)
          (source_id (hb_header pkt)) now (hb_role pkt))"
  by (simp add: handle_heartbeat_def edtsp_parse_heartbeat_def Let_def EDTSP_NTOHL_def)

lemma heartbeat_run_Suc:
  "heartbeat_run (Suc n) = handle_heartbeat (heartbeat_run n) (heartbeat_from (peer_id n)) 0"
  by (simp add: heartbeat_run_def)

lemma highest_of_peers:
  assumes "0 < n"
  shows "highest_loop 1 (map peer [0..<n]) \<noteq> 1"
proof -
  have "peer_id 0 \<in> set (map device_id (filter active (map peer [0..<n])))"
    using assms by (auto simp: peer_def dev_def)
  then have "peer_id 0 \<le> highest_loop 1 (map peer [0..<n])"
    unfolding highest_loop_Max by simp
  moreover have "(1 :: 32 word) < peer_id 0"
    by (simp add: peer_id_def)
  ultimately show ?thesis by auto
qed

lemma heartbeat_run_fields:
  "n \<le> 256 \<Longrightarrow> device_list (heartbeat_run n) = registry_slots n
      \<and> device_count (heartbeat_run n) = of_nat n
      \<and> my_device_id (heartbeat_run n) = 1
      \<and> my_role (heartbeat_run n) = role_after n"
proof (induction n)
  case 0
  then show ?case
    by (simp add: heartbeat_run_def edtsp_election_init_def boot_state_def registry_slots_def
        EDTSP_MAX_DEVICES_def role_after_def)
next
  case (Suc n)
  then have n: "n \<le> 255" and ih: "device_list (heartbeat_run n) = registry_slots n"
    "device_count (heartbeat_run n) = of_nat n" "my_device_id (heartbeat_run n) = 1"
    by simp_all
  let ?rx = "LogRxHeartbeat (peer_id n) EDTSP_ROLE_SLAVE (edtsp_swap32 0) 1"
  let ?s1 = "(heartbeat_run n)\<lparr>printed := printed (heartbeat_run n) @ [?rx]\<rparr>"
  let ?s2 = "edtsp_update_device ?s1 (peer_id n) 0 EDTSP_ROLE_SLAVE"
  have s1: "device_list ?s1 = registry_slots n" "device_count ?s1 = of_nat n"
    using ih by simp_all
  have run: "heartbeat_run (Suc n) = edtsp_perform_election ?s2"
    unfolding heartbeat_run_Suc handle_heartbeat_election by (simp add: heartbeat_from_def)
  have s2: "device_list ?s2 = registry_slots (Suc n)" "device_count ?s2 = of_nat (Suc n)"
    "my_device_id ?s2 = 1"
    unfolding update_fresh_step [OF s1 n] by (simp_all add: ih)
  have tr: "tracked ?s2 = (if n = 255 then [] else map peer [0..<Suc n])"
  proof (cases "n = 255")
    case True
    then show ?thesis unfolding tracked_def s2 by simp
  next
    case False
    with n have "Suc n \<le> 255" by simp
    then have "unat (of_nat (Suc n) :: 8 word) = Suc n" by (rule unat_count)
    with False show ?thesis unfolding tracked_def s2 by (simp add: registry_slots_take)
  qed
  have role: "my_role (edtsp_perform_election ?s2) = role_after (Suc n)"
  proof (cases "n = 255")
    case True
    then show ?thesis unfolding my_role_election tr s2 by (simp add: role_after_def)
  next
    case False
    with n have le: "Suc n \<le> 255" by simp
    have "highest_loop 1 (map peer [0..<Suc n]) \<noteq> 1"
      by (rule highest_of_peers) simp
    with False le show ?thesis unfolding my_role_election tr s2 by (simp add: role_after_def)
  qed
  have "device_list (edtsp_perform_election ?s2) = device_list ?s2"
    "device_count (edtsp_perform_election ?s2) = device_count ?s2"
    "my_device_id (edtsp_perform_election ?s2) = my_device_id ?s2"
    by (simp_all add: edtsp_perform_election_def Let_def)
  with role s2 show ?case unfolding run by simp
qed

lemma registry_slots_full: "registry_slots 256 = map peer [0..<256]"
  by (simp add: registry_slots_def)

lemma active_peers: "filter active (map peer xs) = map peer xs"
  by (induction xs) (simp_all add: peer_def dev_def)

lemma device_id_peer: "device_id (peer x) = peer_id x"
  by (simp add: peer_def dev_def)

lemma peer_id_255: "peer_id 255 = 257"
  by (simp add: peer_id_def)

lemma peer_id_5: "peer_id 5 = 7"
  by (simp add: peer_id_def)

lemma peer_id_le: "i < 256 \<Longrightarrow> peer_id i \<le> 257"
  by (simp add: word_le_nat_alt unat_peer_id)

lemma Max_full_registry:
  "Max (insert 1 (set (map device_id (filter active (registry_slots 256))))) = 257"
proof -
  have s: "set (map device_id (filter active (registry_slots 256))) = peer_id ` {0..<256}"
    by (simp add: registry_slots_full active_peers device_id_peer)
  show ?thesis
    unfolding s
  proof (rule Max_eqI)
    show "finite (insert 1 (peer_id ` {0..<256}))" by simp
    show "257 \<in> insert 1 (peer_id ` {0..<256})"
    proof -
      have "peer_id 255 \<in> peer_id ` {0..<256}" by simp
      then show ?thesis by (simp only: peer_id_255 insert_iff) simp
    qed
    fix y :: "32 word"
    assume "y \<in> insert 1 (peer_id ` {0..<256})"
    then show "y \<le> 257" using peer_id_le by auto
  qed
qed

text \<open>
  C1 on the code. After the heartbeats of 256 distinct peers \<open>2, \<dots>, 257\<close>, device 1 holds
  256 active records, the largest identifier among them and itself is 257, and the counter
  has wrapped to 0. The election visits no slot: the 256th heartbeat turned the role from
  Slave to Master, and running the election again leaves it Master.
\<close>

theorem election_ignores_records_after_wrap:
  "my_device_id (heartbeat_run 256) = 1
   \<and> length (filter active (device_list (heartbeat_run 256))) = 256
   \<and> Max (insert (my_device_id (heartbeat_run 256))
         (set (map device_id (filter active (device_list (heartbeat_run 256)))))) = 257
   \<and> my_role (heartbeat_run 255) = EDTSP_ROLE_SLAVE
   \<and> my_role (heartbeat_run 256) = EDTSP_ROLE_MASTER
   \<and> my_role (edtsp_perform_election (heartbeat_run 256)) = EDTSP_ROLE_MASTER"
proof -
  let ?s = "heartbeat_run 256"
  have f: "device_list ?s = registry_slots 256" "device_count ?s = 0" "my_device_id ?s = 1"
    "my_role ?s = EDTSP_ROLE_MASTER"
    using heartbeat_run_fields [of 256] by (simp_all add: role_after_def)
  have g: "my_role (heartbeat_run 255) = EDTSP_ROLE_SLAVE"
    using heartbeat_run_fields [of 255] by (simp add: role_after_def)
  have n: "length (filter active (device_list ?s)) = 256"
    unfolding f by (simp add: registry_slots_full active_peers)
  have m: "Max (insert (my_device_id ?s) (set (map device_id (filter active (device_list ?s))))) = 257"
    unfolding f by (rule Max_full_registry)
  have e: "my_role (edtsp_perform_election ?s) = EDTSP_ROLE_MASTER"
    unfolding my_role_election by (simp add: tracked_def f)
  from f g n m e show ?thesis by simp
qed

text \<open>
  C8 on the code. After 256 distinct peers have been observed, slot 5 holds the record of
  device 7. Observing device 7 again does not find it, since the counter has wrapped to 0:
  the new-device line is printed, the counter becomes 1, slot 0 (the record of device 2)
  is overwritten with a second record for 7, and the record in slot 5 keeps its old
  timestamp and role.
\<close>

theorem known_device_not_found_after_wrap:
  "device_list (observe_run 256) ! 5 = dev 7 0 EDTSP_ROLE_SLAVE True
   \<and> find_device_index (observe_run 256) 7 = - 1
   \<and> printed (edtsp_update_device (observe_run 256) 7 9000 EDTSP_ROLE_MASTER) =
       printed (observe_run 256) @ [LogNewDevice 7]
   \<and> device_count (edtsp_update_device (observe_run 256) 7 9000 EDTSP_ROLE_MASTER) = 1
   \<and> device_list (observe_run 256) ! 0 = dev 2 0 EDTSP_ROLE_SLAVE True
   \<and> device_list (edtsp_update_device (observe_run 256) 7 9000 EDTSP_ROLE_MASTER) ! 0 =
       dev 7 9000 EDTSP_ROLE_MASTER True
   \<and> device_list (edtsp_update_device (observe_run 256) 7 9000 EDTSP_ROLE_MASTER) ! 5 =
       dev 7 0 EDTSP_ROLE_SLAVE True"
proof -
  let ?s = "observe_run 256"
  have f: "device_list ?s = registry_slots 256" "device_count ?s = 0"
    using observe_run_fields [of 256] by simp_all
  have s5: "registry_slots 256 ! 5 = dev 7 0 EDTSP_ROLE_SLAVE True"
    by (simp add: registry_slots_full peer_def peer_id_def)
  have s0: "registry_slots 256 ! 0 = dev 2 0 EDTSP_ROLE_SLAVE True"
    by (simp add: registry_slots_full peer_def peer_id_def)
  have nf: "find_device_index ?s 7 = - 1"
    by (simp add: find_device_index_def tracked_def f)
  note w = update_wrapped [OF f(2) f(1), of 7 9000 EDTSP_ROLE_MASTER]
  show ?thesis
    using s5 s0 nf unfolding w by (simp add: f length_registry_slots)
qed

text \<open>
  C10 on the code. After 256 distinct peers and one more observation the array holds 256
  active records and the counter is 1: \<^verbatim>\<open>edtsp_get_active_device_count\<close> returns 2, where
  one plus 256 is 1 modulo 256.
\<close>

theorem active_count_misses_records_after_wrap:
  "length (filter active
      (device_list (edtsp_update_device (observe_run 256) 1001 5 EDTSP_ROLE_UNKNOWN))) = 256
   \<and> edtsp_get_active_device_count
        (edtsp_update_device (observe_run 256) 1001 5 EDTSP_ROLE_UNKNOWN) = 2
   \<and> (1 + of_nat 256 :: 8 word) = 1"
proof -
  let ?s = "observe_run 256"
  let ?d = "dev 1001 5 EDTSP_ROLE_UNKNOWN True"
  let ?s' = "edtsp_update_device ?s 1001 5 EDTSP_ROLE_UNKNOWN"
  have f: "device_list ?s = registry_slots 256" "device_count ?s = 0"
    using observe_run_fields [of 256] by simp_all
  note w = update_wrapped [OF f(2) f(1), of 1001 5 EDTSP_ROLE_UNKNOWN]
  have l: "device_list ?s' = (registry_slots 256)[0 := ?d]" "device_count ?s' = 1"
    unfolding w by simp_all
  have "\<forall>x \<in> set ((registry_slots 256)[0 := ?d]). active x"
  proof
    fix x assume "x \<in> set ((registry_slots 256)[0 := ?d])"
    then have "x = ?d \<or> x \<in> set (registry_slots 256)"
      using set_update_subset_insert [of "registry_slots 256" 0 ?d] by auto
    then show "active x"
      by (auto simp: registry_slots_full peer_def dev_def)
  qed
  then have "filter active ((registry_slots 256)[0 := ?d]) = (registry_slots 256)[0 := ?d]"
    by (simp add: filter_id_conv)
  then have n: "length (filter active (device_list ?s')) = 256"
    unfolding l by (simp add: length_registry_slots)
  have tr: "tracked ?s' = [?d]"
    by (rule tracked_after_wrap [OF l(2,1)])
  have c: "edtsp_get_active_device_count ?s' = 2"
    unfolding edtsp_get_active_device_count_def tr by (simp add: dev_def)
  from n c show ?thesis by simp
qed

text \<open>
  C2 on the code. After 256 distinct peers have been observed the array holds 256 records
  and the \<^verbatim>\<open>uint8_t\<close> counter has wrapped to 0. Observing the unseen identifier 1001 then
  prints the new-device line, not the list-full warning, sets the counter to 1 and
  overwrites slot 0, the record of peer 2. For no state at all does
  \<^verbatim>\<open>edtsp_update_device\<close> take the list-full branch.
\<close>

theorem update_device_overwrites_at_capacity:
  "device_list (observe_run 256) = registry_slots 256
   \<and> device_count (observe_run 256) = 0
   \<and> 1001 \<notin> device_id ` set (device_list (observe_run 256))
   \<and> printed (edtsp_update_device (observe_run 256) 1001 5 EDTSP_ROLE_UNKNOWN) =
       printed (observe_run 256) @ [LogNewDevice 1001]
   \<and> device_count (edtsp_update_device (observe_run 256) 1001 5 EDTSP_ROLE_UNKNOWN) = 1
   \<and> device_list (observe_run 256) ! 0 = peer 0
   \<and> device_list (edtsp_update_device (observe_run 256) 1001 5 EDTSP_ROLE_UNKNOWN) ! 0 =
       dev 1001 5 EDTSP_ROLE_UNKNOWN True
   \<and> (\<forall>st did t r. printed (edtsp_update_device st did t r) \<noteq> printed st @ [LogListFull])"
proof -
  have f: "device_list (observe_run 256) = registry_slots 256"
    "device_count (observe_run 256) = 0"
    using observe_run_fields [of 256] by simp_all
  have u: "1001 \<notin> device_id ` set (device_list (observe_run 256))"
    unfolding f by (rule peer_ids_small) simp_all
  note w = update_wrapped [OF f(2) f(1), of 1001 5 EDTSP_ROLE_UNKNOWN]
  have z: "registry_slots 256 ! 0 = peer 0"
    by (rule registry_slots_0) simp_all
  have n: "\<forall>st did t r. printed (edtsp_update_device st did t r) \<noteq> printed st @ [LogListFull]"
    by (simp add: edtsp_update_device_def Let_def store_observation_def never_full)
  show ?thesis
    using f u z n unfolding w by (simp add: length_registry_slots)
qed

text \<open>
  C3 on the code. After the heartbeats of 256 distinct peers the array holds
  \<^verbatim>\<open>EDTSP_MAX_DEVICES\<close> records and this device is Master. A heartbeat of the unknown device
  1001 is then not rejected: the new-device line is printed, not the list-full warning,
  and the election that follows makes this device Slave and prints the role change.
\<close>

theorem election_recomputed_at_full_registry:
  "device_list (heartbeat_run 256) = registry_slots 256
   \<and> length (registry_slots 256) = nat EDTSP_MAX_DEVICES
   \<and> 1001 \<notin> device_id ` set (device_list (heartbeat_run 256))
   \<and> my_role (heartbeat_run 256) = EDTSP_ROLE_MASTER
   \<and> my_role (handle_heartbeat (heartbeat_run 256) (heartbeat_from 1001) 0) = EDTSP_ROLE_SLAVE
   \<and> printed (handle_heartbeat (heartbeat_run 256) (heartbeat_from 1001) 0) =
       printed (heartbeat_run 256) @
       [LogRxHeartbeat 1001 EDTSP_ROLE_SLAVE 0 1, LogNewDevice 1001,
        LogRoleChange EDTSP_ROLE_MASTER EDTSP_ROLE_SLAVE 1 1001]"
proof -
  let ?s = "heartbeat_run 256"
  have f: "device_list ?s = registry_slots 256" "device_count ?s = 0" "my_device_id ?s = 1"
    "my_role ?s = EDTSP_ROLE_MASTER"
    using heartbeat_run_fields [of 256] by (simp_all add: role_after_def)
  have u: "1001 \<notin> device_id ` set (device_list ?s)"
    unfolding f by (rule peer_ids_small) simp_all
  let ?s1 = "?s\<lparr>printed := printed ?s @
     [LogRxHeartbeat 1001 EDTSP_ROLE_SLAVE (edtsp_swap32 0) 1]\<rparr>"
  let ?s2 = "edtsp_update_device ?s1 1001 0 EDTSP_ROLE_SLAVE"
  have s1: "device_count ?s1 = 0" "device_list ?s1 = registry_slots 256"
    using f by simp_all
  have h: "handle_heartbeat ?s (heartbeat_from 1001) 0 = edtsp_perform_election ?s2"
    unfolding handle_heartbeat_election by (simp add: heartbeat_from_def)
  have s2: "device_count ?s2 = 1"
    "device_list ?s2 = (registry_slots 256)[0 := dev 1001 0 EDTSP_ROLE_SLAVE True]"
    "my_device_id ?s2 = 1" "my_role ?s2 = EDTSP_ROLE_MASTER"
    unfolding update_wrapped [OF s1] by (simp_all add: f)
  have z: "edtsp_swap32 0 = 0"
    by (simp add: edtsp_swap32_def)
  have p2: "printed ?s2 = printed ?s @ [LogRxHeartbeat 1001 EDTSP_ROLE_SLAVE 0 1, LogNewDevice 1001]"
    unfolding update_wrapped [OF s1] by (simp add: z)
  have tr: "tracked ?s2 = [dev 1001 0 EDTSP_ROLE_SLAVE True]"
    by (rule tracked_after_wrap [OF s2(1,2)])
  have r: "my_role (edtsp_perform_election ?s2) = EDTSP_ROLE_SLAVE"
    unfolding my_role_election tr s2 by (simp add: dev_def)
  have p: "printed (edtsp_perform_election ?s2) =
       printed ?s @ [LogRxHeartbeat 1001 EDTSP_ROLE_SLAVE 0 1, LogNewDevice 1001,
        LogRoleChange EDTSP_ROLE_MASTER EDTSP_ROLE_SLAVE 1 1001]"
    unfolding edtsp_perform_election_def tr by (simp add: s2 p2 dev_def roles_distinct)
  from r p f u show ?thesis unfolding h by (simp add: length_registry_slots EDTSP_MAX_DEVICES_def)
qed

section \<open>When the election runs\<close>

lemma tracked_printed [simp]: "tracked (st\<lparr>printed := p\<rparr>) = tracked st"
  by (simp add: tracked_def)

lemma update_device_printed:
  "tracked (edtsp_update_device (st\<lparr>printed := p\<rparr>) d t r) = tracked (edtsp_update_device st d t r)
   \<and> my_device_id (edtsp_update_device (st\<lparr>printed := p\<rparr>) d t r) = my_device_id st
   \<and> my_device_id (edtsp_update_device st d t r) = my_device_id st"
  by (simp add: edtsp_update_device_def find_device_index_def Let_def store_observation_def
      tracked_def)

lemma elected_role_update_printed:
  "elected_role (edtsp_update_device (st\<lparr>printed := p\<rparr>) d t r) =
   elected_role (edtsp_update_device st d t r)"
  by (simp add: elected_role_def update_device_printed)

lemma handle_discovery_election:
  "handle_discovery st pkt now =
     edtsp_perform_election
       (edtsp_update_device
          (st\<lparr>printed := printed st @
               [LogRxDiscovery (source_id (disc_header pkt)) (device_name pkt)
                  (disc_interface_type pkt)]\<rparr>)
          (source_id (disc_header pkt)) now EDTSP_ROLE_UNKNOWN)"
  by (simp add: handle_discovery_def Let_def)

lemma my_role_elected: "my_role (edtsp_perform_election st) = elected_role st"
  by (simp add: my_role_election elected_role_def)

lemma timeout_loop_unchanged:
  "\<not> fst (snd (timeout_loop t ds)) \<Longrightarrow> timeout_loop t ds = (ds, False, [])"
  by (induction ds) (auto split: prod.splits if_splits simp: Let_def)

text \<open>
  When the election runs. Both handlers run it after \<^verbatim>\<open>edtsp_update_device\<close>, whatever
  that call did: the role after a Discovery or Heartbeat handler is the role elected on the
  registry after the observation. \<^verbatim>\<open>edtsp_check_timeouts\<close> runs the election when the
  sweep flipped a flag and changes nothing when it flipped none. A buffer whose header is
  rejected, or a datagram shorter than a header, leaves the state as it was.
\<close>

theorem election_triggers:
  "my_role (handle_heartbeat st hb now) =
      elected_role (edtsp_update_device st (source_id (hb_header hb)) now (hb_role hb))
   \<and> my_role (handle_discovery st disc now) =
      elected_role (edtsp_update_device st (source_id (disc_header disc)) now EDTSP_ROLE_UNKNOWN)
   \<and> (topology_changed st t \<longrightarrow>
        edtsp_check_timeouts st t = edtsp_perform_election (sweep_state st t)
        \<and> my_role (edtsp_check_timeouts st t) = elected_role (sweep_state st t))
   \<and> (\<not> topology_changed st t \<longrightarrow> edtsp_check_timeouts st t = st)
   \<and> (\<not> snd (edtsp_parse_header (Some (header_at buffer))) \<longrightarrow>
        receive_packets st my_id buffer bytes now = st)
   \<and> (as_size_t bytes < sizeof_EDTSPHeader \<longrightarrow>
        receive_packets st my_id buffer bytes now = st)"
proof -
  have 1: "my_role (handle_heartbeat st hb now) =
      elected_role (edtsp_update_device st (source_id (hb_header hb)) now (hb_role hb))"
    unfolding handle_heartbeat_election my_role_elected by (rule elected_role_update_printed)
  have 2: "my_role (handle_discovery st disc now) =
      elected_role (edtsp_update_device st (source_id (disc_header disc)) now EDTSP_ROLE_UNKNOWN)"
    unfolding handle_discovery_election my_role_elected by (rule elected_role_update_printed)
  have 3: "topology_changed st t \<longrightarrow>
        edtsp_check_timeouts st t = edtsp_perform_election (sweep_state st t)
        \<and> my_role (edtsp_check_timeouts st t) = elected_role (sweep_state st t)"
    by (simp add: edtsp_check_timeouts_def my_role_elected)
  have 4: "\<not> topology_changed st t \<longrightarrow> edtsp_check_timeouts st t = st"
  proof
    assume n: "\<not> topology_changed st t"
    then have "timeout_loop t (tracked st) = (tracked st, False, [])"
      unfolding topology_changed_def by (rule timeout_loop_unchanged)
    then have "sweep_state st t = st" by (rule sweep_fixed)
    with n show "edtsp_check_timeouts st t = st" by (simp add: edtsp_check_timeouts_def)
  qed
  have 5: "\<not> snd (edtsp_parse_header (Some (header_at buffer))) \<longrightarrow>
        receive_packets st my_id buffer bytes now = st"
    by (simp add: receive_packets_def parse_header_Some)
  have 6: "as_size_t bytes < sizeof_EDTSPHeader \<longrightarrow>
        receive_packets st my_id buffer bytes now = st"
    by (simp add: receive_packets_def)
  from 1 2 3 4 5 6 show ?thesis by blast
qed

theorem election_triggers_witness:
  "topology_changed scenario_100 6000
   \<and> my_role (edtsp_check_timeouts scenario_100 6000) = EDTSP_ROLE_MASTER
   \<and> \<not> topology_changed scenario_100 5000
   \<and> edtsp_check_timeouts scenario_100 5000 = scenario_100
   \<and> \<not> snd (edtsp_parse_header (Some (header_at (replicate 512 0))))
   \<and> receive_packets scenario_100 100 (replicate 512 0) 14 7 = scenario_100
   \<and> as_size_t 3 < sizeof_EDTSPHeader
   \<and> receive_packets scenario_100 100 (replicate 512 0) 3 7 = scenario_100"
proof -
  have a: "topology_changed scenario_100 6000" "\<not> topology_changed scenario_100 5000"
    by (simp_all add: topology_changed_def tracked_def scenario_100_def dev_def
        EDTSP_HEARTBEAT_TIMEOUT_MS_def)
  have b: "\<not> snd (edtsp_parse_header (Some (header_at (replicate 512 0))))"
    by (simp add: parse_header_Some header_at_def host_u16_def edtsp_swap16_def EDTSP_MAGIC_def)
  have c: "as_size_t 3 < sizeof_EDTSPHeader"
    by (simp add: as_size_t_def sizeof_EDTSPHeader_def)
  have d: "elected_role (sweep_state scenario_100 6000) = EDTSP_ROLE_MASTER"
    by (simp add: elected_role_def sweep_state_def tracked_def scenario_100_def dev_def
        EDTSP_HEARTBEAT_TIMEOUT_MS_def)
  note t1 = election_triggers [where st = scenario_100 and t = 6000]
  note t2 = election_triggers [where st = scenario_100 and t = 5000 and my_id = 100
      and buffer = "replicate 512 0" and bytes = 14 and now = 7]
  note t3 = election_triggers [where st = scenario_100 and my_id = 100
      and buffer = "replicate 512 0" and bytes = 3 and now = 7]
  have "my_role (edtsp_check_timeouts scenario_100 6000) =
        elected_role (sweep_state scenario_100 6000)"
    using t1 a(1) by blast
  then have 1: "my_role (edtsp_check_timeouts scenario_100 6000) = EDTSP_ROLE_MASTER"
    by (simp only: d)
  have 2: "edtsp_check_timeouts scenario_100 5000 = scenario_100"
    using t2 a(2) by blast
  have 3: "receive_packets scenario_100 100 (replicate 512 0) 14 7 = scenario_100"
    using t2 b by blast
  have 4: "receive_packets scenario_100 100 (replicate 512 0) 3 7 = scenario_100"
    using t3 c by blast
  from a b c 1 2 3 4 show ?thesis by blast
qed

text \<open>
  A Discovery or Heartbeat datagram shorter than its structure is dropped as well: no
  handler runs and the state stays.
\<close>

lemma truncated_body_dropped:
  "ptype (header_at buffer) = EDTSP_TYPE_DISCOVERY \<Longrightarrow>
     as_size_t bytes < sizeof_EDTSPDiscoveryPacket \<Longrightarrow>
     receive_packets st my_id buffer bytes now = st"
  "ptype (header_at buffer) = EDTSP_TYPE_HEARTBEAT \<Longrightarrow>
     as_size_t bytes < sizeof_EDTSPHeartbeatPacket \<Longrightarrow>
     receive_packets st my_id buffer bytes now = st"
  by (simp_all add: receive_packets_def parse_header_Some EDTSP_TYPE_DISCOVERY_def
      EDTSP_TYPE_HEARTBEAT_def)

end
